theory Spec2Isabelle
  imports Main "HOL-Library.Word"
begin

section \<open>The SSO driver of awssso (ssodriver.py)\<close>

text \<open>
  The module drives a Chrome session through Selenium and keeps a pickle file of
  cookies. Both are outside the module, so the embedding makes them explicit:
  \<^item> the browser is a record of response functions. Every call the module makes on the
    driver or on an element is an \<open>action\<close>; the browser answers an action from the
    list of actions made so far, with a value or with a Selenium exception;
  \<^item> the state threaded through the module is the list of actions made so far and the
    file system (a map from paths to file contents);
  \<^item> every Python exception is a value of \<open>exn\<close>, and a method is a function from the
    state to a result \<open>exn + 'a\<close> and the new state.
\<close>

subsection \<open>Values, cookies, files\<close>

text \<open>The values found in a cookie dict: strings, integers, booleans.\<close>

datatype pyval = PStr string | PInt int | PBool bool

text \<open>A cookie is a Python dict from field names to values.\<close>

type_synonym cookie = "string \<rightharpoonup> pyval"

text \<open>
  The content of a file as \<open>pickle.load\<close> sees it: the pickle of a list of cookie
  dicts (what \<open>pickle.dump\<close> of this module writes), or bytes that do not unpickle.
\<close>

datatype blob = CookiePickle "cookie list" | Undecodable

text \<open>A reference to a page element, as handed out by the driver.\<close>

type_synonym element = nat

subsection \<open>Exceptions\<close>

text \<open>
  The exceptions of Selenium: the two the module names, and \<open>WebDriverException\<close> for
  every other failure of a driver call.
\<close>

datatype wd_error = TimeoutException | NoSuchElementException | WebDriverException

datatype exn =
    Selenium wd_error
  | FileNotFoundError
  | UnpicklingError
  | OSError
  | KeyError string
  | TypeError
  | AlertMessage string
  | MFACodeNeeded element

subsection \<open>Driver actions and the browser\<close>

datatype locator = ById | ByCssSelector | ByTagName

text \<open>The expected conditions the module waits for, each on a locator \<open>(by, value)\<close>.\<close>

datatype cond = PresenceOfElementLocated locator string | VisibilityOfElementLocated locator string

text \<open>
  \<open>Until ctx timeout poll c\<close> is \<open>WebDriverWait(ctx, timeout, poll_frequency=poll).until(c)\<close>:
  \<open>ctx\<close> is \<open>None\<close> for the driver itself and \<open>Some el\<close> for an element, the timeout is in
  seconds and the poll frequency in milliseconds.
\<close>

datatype action =
    Launch bool
  | ImplicitlyWait nat
  | Navigate string
  | Back
  | Quit
  | Until "element option" nat nat cond
  | FindCss element string
  | Clear element
  | SendKeys element string
  | Click element
  | Text element
  | GetCookie string
  | GetCookies
  | AddCookie cookie

record browser =
  on_command :: "action list \<Rightarrow> action \<Rightarrow> wd_error + unit"
  on_locate :: "action list \<Rightarrow> action \<Rightarrow> wd_error + element"
  on_text :: "action list \<Rightarrow> action \<Rightarrow> wd_error + string"
  on_cookie :: "action list \<Rightarrow> action \<Rightarrow> wd_error + cookie option"
  on_cookies :: "action list \<Rightarrow> action \<Rightarrow> wd_error + cookie list"

record world =
  trace :: "action list"
  files :: "string \<rightharpoonup> blob"
  unwritable :: "string set"

type_synonym 'a prog = "world \<Rightarrow> (exn + 'a) \<times> world"

definition ret :: "'a \<Rightarrow> 'a prog" where
  "ret x w = (Inr x, w)"

definition raise :: "exn \<Rightarrow> 'a prog" where
  "raise e w = (Inl e, w)"

text \<open>Sequencing: an exception of the first statement skips the rest.\<close>

definition and_then :: "'a prog \<Rightarrow> ('a \<Rightarrow> 'b prog) \<Rightarrow> 'b prog" where
  "and_then m f w = (case m w of (Inl e, w') \<Rightarrow> (Inl e, w') | (Inr x, w') \<Rightarrow> f x w')"

text \<open>
  \<open>try: m except E: h\<close>: an exception of \<open>m\<close> that belongs to \<open>E\<close> runs the handler from
  the state \<open>m\<close> left; any other exception propagates.
\<close>

definition try_except :: "'a prog \<Rightarrow> (exn \<Rightarrow> bool) \<Rightarrow> 'a prog \<Rightarrow> 'a prog" where
  "try_except m handled h w =
     (case m w of
        (Inl e, w') \<Rightarrow> if handled e then h w' else (Inl e, w')
      | (Inr x, w') \<Rightarrow> (Inr x, w'))"

definition logged :: "action \<Rightarrow> world \<Rightarrow> world" where
  "logged a w = w\<lparr>trace := trace w @ [a]\<rparr>"

definition answer :: "(wd_error + 'a) \<Rightarrow> exn + 'a" where
  "answer r = (case r of Inl e \<Rightarrow> Inl (Selenium e) | Inr x \<Rightarrow> Inr x)"

definition command :: "browser \<Rightarrow> action \<Rightarrow> unit prog" where
  "command br a w = (answer (on_command br (trace w) a), logged a w)"

definition locate :: "browser \<Rightarrow> action \<Rightarrow> element prog" where
  "locate br a w = (answer (on_locate br (trace w) a), logged a w)"

definition text_of :: "browser \<Rightarrow> element \<Rightarrow> string prog" where
  "text_of br el w = (answer (on_text br (trace w) (Text el)), logged (Text el) w)"

definition driver_get_cookie :: "browser \<Rightarrow> string \<Rightarrow> cookie option prog" where
  "driver_get_cookie br name w =
     (answer (on_cookie br (trace w) (GetCookie name)), logged (GetCookie name) w)"

definition driver_get_cookies :: "browser \<Rightarrow> cookie list prog" where
  "driver_get_cookies br w = (answer (on_cookies br (trace w) GetCookies), logged GetCookies w)"

subsection \<open>Files and pickle\<close>

text \<open>\<open>pickle.load(open(path, 'rb'))\<close>\<close>

definition pickle_load :: "string \<Rightarrow> cookie list prog" where
  "pickle_load path w =
     (case files w path of
        None \<Rightarrow> (Inl FileNotFoundError, w)
      | Some Undecodable \<Rightarrow> (Inl UnpicklingError, w)
      | Some (CookiePickle cs) \<Rightarrow> (Inr cs, w))"

text \<open>\<open>pickle.dump(cookies, open(path, 'wb'))\<close>\<close>

definition pickle_dump :: "cookie list \<Rightarrow> string \<Rightarrow> unit prog" where
  "pickle_dump cs path w =
     (if path \<in> unwritable w then (Inl OSError, w)
      else (Inr (), w\<lparr>files := (files w)(path \<mapsto> CookiePickle cs)\<rparr>))"

text \<open>\<open>open\<close> on a file name that is \<open>None\<close> is a TypeError.\<close>

definition open_file :: "string option \<Rightarrow> string prog" where
  "open_file name = (case name of None \<Rightarrow> raise TypeError | Some path \<Rightarrow> ret path)"

subsection \<open>SSODriver\<close>

record ssodriver =
  sso_url :: string
  sso_cookie_hash :: string
  sso_cookie_file :: "string option"
  sso_poll_frequency :: nat

text \<open>
  \<open>hash(s) = sha256(s.encode()).hexdigest()\<close>. SHA-256 is hashlib's; it is a parameter
  here, from the bytes of the message to the bytes of the digest. A Python string is
  modelled by its UTF-8 bytes, so \<open>encode\<close> only changes the type.
\<close>

definition encode :: "string \<Rightarrow> 8 word list" where
  "encode s = map (\<lambda>c. of_nat (of_char c)) s"

definition hexdigit :: "nat \<Rightarrow> char" where
  "hexdigit n = ''0123456789abcdef'' ! n"

definition hexbyte :: "8 word \<Rightarrow> string" where
  "hexbyte b = [hexdigit (unat b div 16), hexdigit (unat b mod 16)]"

definition hexdigest :: "8 word list \<Rightarrow> string" where
  "hexdigest d = concat (map hexbyte d)"

definition hash :: "(8 word list \<Rightarrow> 8 word list) \<Rightarrow> string \<Rightarrow> string" where
  "hash sha256 s = hexdigest (sha256 (encode s))"

text \<open>
  \<open>__init__\<close>. \<open>cookie_dir\<close> is \<open>None\<close> or a string; the empty string is falsy as
  \<open>None\<close> is.
\<close>

definition cookie_key :: "(8 word list \<Rightarrow> 8 word list) \<Rightarrow> string \<Rightarrow> string \<Rightarrow> string" where
  "cookie_key sha256 username url = hash sha256 (username @ ''@'' @ url)"

definition cookie_path :: "string option \<Rightarrow> string \<Rightarrow> string option" where
  "cookie_path cookie_dir h =
     (case cookie_dir of
        None \<Rightarrow> None
      | Some d \<Rightarrow> if d = [] then None else Some (d @ ''/'' @ h @ ''.pkl''))"

definition init ::
  "(8 word list \<Rightarrow> 8 word list) \<Rightarrow> browser \<Rightarrow> string \<Rightarrow> string \<Rightarrow> bool \<Rightarrow> string option
     \<Rightarrow> ssodriver prog" where
  "init sha256 br url username headless cookie_dir =
     (let h = cookie_key sha256 username url in
      and_then (command br (Launch headless)) (\<lambda>_.
      and_then (command br (ImplicitlyWait 5)) (\<lambda>_.
      ret \<lparr>sso_url = url, sso_cookie_hash = h,
           sso_cookie_file = cookie_path cookie_dir h,
           sso_poll_frequency = 50\<rparr>)))"

text \<open>\<open>if self._cookie_file:\<close> holds for a string that is not empty.\<close>

definition truthy :: "string option \<Rightarrow> bool" where
  "truthy name = (case name of None \<Rightarrow> False | Some path \<Rightarrow> path \<noteq> [])"

text \<open>\<open>if 'expiry' in cookie: del cookie['expiry']\<close>\<close>

definition without_expiry :: "cookie \<Rightarrow> cookie" where
  "without_expiry c = (if c ''expiry'' \<noteq> None then c(''expiry'' := None) else c)"

text \<open>The loop of \<open>_load_cookies\<close>.\<close>

fun add_cookies :: "browser \<Rightarrow> cookie list \<Rightarrow> unit prog" where
  "add_cookies br [] = ret ()"
| "add_cookies br (c # cs) =
     and_then (command br (AddCookie (without_expiry c))) (\<lambda>_. add_cookies br cs)"

definition load_cookies :: "ssodriver \<Rightarrow> browser \<Rightarrow> unit prog" where
  "load_cookies sso br =
     try_except
       (and_then (open_file (sso_cookie_file sso)) (\<lambda>path.
        and_then (pickle_load path) (\<lambda>cookies.
        add_cookies br cookies)))
       (\<lambda>e. e = FileNotFoundError)
       (ret ())"

text \<open>The loop of \<open>_dump_cookies\<close>: \<open>cookie['name']\<close> raises KeyError on a dict without a name.\<close>

fun kept_cookies :: "pyval list \<Rightarrow> cookie list \<Rightarrow> cookie list \<Rightarrow> exn + cookie list" where
  "kept_cookies exclude [] cookies = Inr cookies"
| "kept_cookies exclude (c # cs) cookies =
     (case c ''name'' of
        None \<Rightarrow> Inl (KeyError ''name'')
      | Some n \<Rightarrow> kept_cookies exclude cs (if n \<notin> set exclude then cookies @ [c] else cookies))"

definition dump_cookies :: "ssodriver \<Rightarrow> browser \<Rightarrow> unit prog" where
  "dump_cookies sso br =
     (let exclude = [PStr ''x-amz-sso_authn''] in
      and_then (driver_get_cookies br) (\<lambda>session.
      case kept_cookies exclude session [] of
        Inl e \<Rightarrow> raise e
      | Inr cookies \<Rightarrow>
          and_then (open_file (sso_cookie_file sso)) (\<lambda>path. pickle_dump cookies path)))"

text \<open>
  \<open>_find_element_by_css_selector(css_selector, driver, timeout=10)\<close>: \<open>driver or self._driver\<close>
  is the driver itself when no element is given.
\<close>

definition find_element_by_css_selector ::
  "ssodriver \<Rightarrow> browser \<Rightarrow> string \<Rightarrow> element option \<Rightarrow> nat \<Rightarrow> element prog" where
  "find_element_by_css_selector sso br css_selector driver timeout =
     locate br (Until driver timeout (sso_poll_frequency sso)
                  (VisibilityOfElementLocated ByCssSelector css_selector))"

definition find_element_by_id ::
  "ssodriver \<Rightarrow> browser \<Rightarrow> string \<Rightarrow> element option \<Rightarrow> nat \<Rightarrow> element prog" where
  "find_element_by_id sso br element_id driver timeout =
     locate br (Until driver timeout (sso_poll_frequency sso)
                  (VisibilityOfElementLocated ById element_id))"

definition click_element_by_id ::
  "ssodriver \<Rightarrow> browser \<Rightarrow> string \<Rightarrow> element option \<Rightarrow> nat \<Rightarrow> element prog" where
  "click_element_by_id sso br element_id driver timeout =
     and_then (find_element_by_id sso br element_id driver timeout) (\<lambda>element.
     and_then (command br (Click element)) (\<lambda>_.
     ret element))"

text \<open>The wait of one second on the driver that \<open>get_token\<close>, \<open>login\<close> and the checks make.\<close>

definition presence_wait :: "ssodriver \<Rightarrow> locator \<Rightarrow> string \<Rightarrow> action" where
  "presence_wait sso b v =
     Until None 1 (sso_poll_frequency sso) (PresenceOfElementLocated b v)"

definition wait_presence :: "ssodriver \<Rightarrow> browser \<Rightarrow> locator \<Rightarrow> string \<Rightarrow> element prog" where
  "wait_presence sso br b v = locate br (presence_wait sso b v)"

definition lookup_failure :: "exn \<Rightarrow> bool" where
  "lookup_failure e = (e = Selenium TimeoutException \<or> e = Selenium NoSuchElementException)"

text \<open>\<open>cookie[key]\<close> on the result of \<open>get_cookie\<close>, which is \<open>None\<close> when there is no such cookie.\<close>

definition subscript :: "cookie option \<Rightarrow> string \<Rightarrow> exn + pyval" where
  "subscript cookie key =
     (case cookie of
        None \<Rightarrow> Inl TypeError
      | Some c \<Rightarrow> (case c key of None \<Rightarrow> Inl (KeyError key) | Some v \<Rightarrow> Inr v))"

definition get_token :: "ssodriver \<Rightarrow> browser \<Rightarrow> bool \<Rightarrow> (pyval \<times> pyval) prog" where
  "get_token sso br restore =
     and_then (wait_presence sso br ByTagName ''portal-dashboard'') (\<lambda>_.
     and_then (command br (Navigate (sso_url sso))) (\<lambda>_.
     and_then (driver_get_cookie br ''x-amz-sso_authn'') (\<lambda>cookie.
     and_then (if restore then command br Back else ret ()) (\<lambda>_.
     case subscript cookie ''value'' of
       Inl e \<Rightarrow> raise e
     | Inr v \<Rightarrow> (case subscript cookie ''expiry'' of
                  Inl e \<Rightarrow> raise e
                | Inr x \<Rightarrow> ret (v, x))))))"

definition close :: "ssodriver \<Rightarrow> browser \<Rightarrow> unit prog" where
  "close sso br =
     and_then (if truthy (sso_cookie_file sso) then dump_cookies sso br else ret ()) (\<lambda>_.
     command br Quit)"

definition get :: "ssodriver \<Rightarrow> browser \<Rightarrow> unit prog" where
  "get sso br =
     and_then (command br (Navigate (sso_url sso))) (\<lambda>_.
     if truthy (sso_cookie_file sso) then load_cookies sso br else ret ())"

text \<open>The two shapes of the four \<open>try\<close> blocks of \<open>login\<close>.\<close>

definition type_into :: "ssodriver \<Rightarrow> browser \<Rightarrow> string \<Rightarrow> string \<Rightarrow> unit prog" where
  "type_into sso br container_id keys =
     try_except
       (and_then (wait_presence sso br ById container_id) (\<lambda>wait.
        and_then (locate br (FindCss wait ''div.awsui-input-container > input'')) (\<lambda>el.
        and_then (command br (Clear el)) (\<lambda>_.
        command br (SendKeys el keys)))))
       lookup_failure
       (ret ())"

definition press_button :: "ssodriver \<Rightarrow> browser \<Rightarrow> string \<Rightarrow> unit prog" where
  "press_button sso br container_id =
     try_except
       (and_then (wait_presence sso br ById container_id) (\<lambda>wait_button.
        and_then (locate br (FindCss wait_button ''button'')) (\<lambda>el.
        command br (Click el))))
       lookup_failure
       (ret ())"

definition login :: "ssodriver \<Rightarrow> browser \<Rightarrow> string \<Rightarrow> string \<Rightarrow> unit prog" where
  "login sso br username password =
     and_then (type_into sso br ''username-input'' username) (\<lambda>_.
     and_then (press_button sso br ''username-submit-button'') (\<lambda>_.
     and_then (type_into sso br ''password-input'' password) (\<lambda>_.
     press_button sso br ''password-submit-button'')))"

definition check_alert :: "ssodriver \<Rightarrow> browser \<Rightarrow> unit prog" where
  "check_alert sso br =
     try_except
       (and_then (wait_presence sso br ById ''alertFrame'') (\<lambda>alert.
        and_then (locate br (FindCss alert ''div.a-alert-error > div.a-box-inner > h4'')) (\<lambda>h.
        and_then (text_of br h) (\<lambda>error.
        and_then (locate br
           (FindCss alert ''div.a-alert-error > div.a-box-inner > div.gwt-Label'')) (\<lambda>l.
        and_then (text_of br l) (\<lambda>message.
        raise (AlertMessage (error @ '': '' @ message))))))))
       lookup_failure
       (ret ())"

definition check_mfa :: "ssodriver \<Rightarrow> browser \<Rightarrow> unit prog" where
  "check_mfa sso br =
     try_except
       (and_then (wait_presence sso br ByTagName ''form'') (\<lambda>mfa.
        raise (MFACodeNeeded mfa)))
       (\<lambda>e. e = Selenium TimeoutException)
       (ret ())"

text \<open>
  \<open>refresh_token\<close> returns the token of \<open>get_token\<close>; after the handler of its \<open>try\<close>
  the method ends without a \<open>return\<close>, which is Python's \<open>None\<close>.
\<close>

definition refresh_token ::
  "ssodriver \<Rightarrow> browser \<Rightarrow> string \<Rightarrow> string \<Rightarrow> bool \<Rightarrow> (pyval \<times> pyval) option prog" where
  "refresh_token sso br username password restore =
     and_then (get sso br) (\<lambda>_.
     and_then (login sso br username password) (\<lambda>_.
     try_except
       (and_then (get_token sso br restore) (\<lambda>token. ret (Some token)))
       (\<lambda>e. e = Selenium TimeoutException)
       (and_then (check_alert sso br) (\<lambda>_.
        and_then (check_mfa sso br) (\<lambda>_.
        ret None)))))"

definition send_mfa ::
  "ssodriver \<Rightarrow> browser \<Rightarrow> element option \<Rightarrow> string \<Rightarrow> bool \<Rightarrow> unit prog" where
  "send_mfa sso br mfa_form mfacode trusted_device =
     and_then (find_element_by_css_selector sso br ''input.awsui-input-type-number'' mfa_form 10)
       (\<lambda>el_mfacode.
     and_then (find_element_by_css_selector sso br ''button.awsui-button-variant-primary''
                 mfa_form 10) (\<lambda>el_signin.
     and_then (command br (Clear el_mfacode)) (\<lambda>_.
     and_then (command br (SendKeys el_mfacode mfacode)) (\<lambda>_.
     command br (Click el_signin)))))"

text \<open>\<open>__exit__\<close> closes the session whatever the exception information is.\<close>

definition exit :: "ssodriver \<Rightarrow> browser \<Rightarrow> unit prog" where
  "exit sso br = close sso br"

subsection \<open>Example sessions\<close>

text \<open>
  A browser on a page that does not change: \<open>present\<close> lists the locator values that
  find an element, with the element found; \<open>texts\<close> gives the text of elements and
  \<open>jar\<close> is the cookie jar. A wait for a value that is not listed times out, a search
  inside an element for a selector that is not listed finds no element, and every
  command succeeds.
\<close>

definition static_locate :: "(string \<times> element) list \<Rightarrow> action \<Rightarrow> wd_error + element" where
  "static_locate present a =
     (case a of
        Until ctx timeout poll c \<Rightarrow>
          (case map_of present
                  (case c of PresenceOfElementLocated b v \<Rightarrow> v
                   | VisibilityOfElementLocated b v \<Rightarrow> v) of
             None \<Rightarrow> Inl TimeoutException
           | Some el \<Rightarrow> Inr el)
      | FindCss ctx sel \<Rightarrow>
          (case map_of present sel of
             None \<Rightarrow> Inl NoSuchElementException
           | Some el \<Rightarrow> Inr el)
      | _ \<Rightarrow> Inl WebDriverException)"

definition static_text :: "(element \<times> string) list \<Rightarrow> action \<Rightarrow> wd_error + string" where
  "static_text texts a =
     (case a of
        Text el \<Rightarrow> (case map_of texts el of None \<Rightarrow> Inl WebDriverException | Some t \<Rightarrow> Inr t)
      | _ \<Rightarrow> Inl WebDriverException)"

definition static_cookie :: "cookie list \<Rightarrow> action \<Rightarrow> wd_error + cookie option" where
  "static_cookie jar a =
     (case a of
        GetCookie name \<Rightarrow> Inr (find (\<lambda>c. c ''name'' = Some (PStr name)) jar)
      | _ \<Rightarrow> Inl WebDriverException)"

definition static_browser ::
  "(string \<times> element) list \<Rightarrow> (element \<times> string) list \<Rightarrow> cookie list \<Rightarrow> browser" where
  "static_browser present texts jar =
     \<lparr>on_command = (\<lambda>tr a. Inr ()),
      on_locate = (\<lambda>tr a. static_locate present a),
      on_text = (\<lambda>tr a. static_text texts a),
      on_cookie = (\<lambda>tr a. static_cookie jar a),
      on_cookies = (\<lambda>tr a. Inr jar)\<rparr>"

definition authn_cookie :: cookie where
  "authn_cookie =
     [''name'' \<mapsto> PStr ''x-amz-sso_authn'', ''value'' \<mapsto> PStr ''eyJ0'',
      ''expiry'' \<mapsto> PInt 1700000000]"

definition device_cookie :: cookie where
  "device_cookie =
     [''name'' \<mapsto> PStr ''device'', ''value'' \<mapsto> PStr ''d1'',
      ''expiry'' \<mapsto> PInt 1700003600]"

definition lang_cookie :: cookie where
  "lang_cookie = [''name'' \<mapsto> PStr ''lang'', ''value'' \<mapsto> PStr ''en'']"

definition demo_sso :: ssodriver where
  "demo_sso =
     \<lparr>sso_url = ''https://d.awsapps.com/start'', sso_cookie_hash = ''00'',
      sso_cookie_file = Some ''c/00.pkl'', sso_poll_frequency = 50\<rparr>"

definition fresh :: world where
  "fresh = \<lparr>trace = [], files = Map.empty, unwritable = {}\<rparr>"

text \<open>
  The login form with its username field missing and no password button; the dashboard
  after a login, with the authentication cookie in the jar; the prompt for an MFA code;
  the error banner after a wrong password.
\<close>

definition login_page :: browser where
  "login_page =
     static_browser
       [(''username-submit-button'', 2), (''button'', 3), (''password-input'', 4),
        (''div.awsui-input-container > input'', 5)] [] []"

definition dashboard :: browser where
  "dashboard = static_browser [(''portal-dashboard'', 1)] [] [authn_cookie, device_cookie]"

definition mfa_prompt :: browser where
  "mfa_prompt = static_browser [(''form'', 4)] [] []"

definition wrong_password :: browser where
  "wrong_password =
     static_browser
       [(''alertFrame'', 7), (''div.a-alert-error > div.a-box-inner > h4'', 8),
        (''div.a-alert-error > div.a-box-inner > div.gwt-Label'', 9)]
       [(8, ''Incorrect username or password.''), (9, ''Try again.'')] []"

text \<open>
  A stand-in for SHA-256 in the examples: the digest is the length of the message, in
  one byte.
\<close>

definition length_digest :: "8 word list \<Rightarrow> 8 word list" where
  "length_digest m = [of_nat (length m)]"

section \<open>Properties\<close>

lemmas prog_defs = ret_def raise_def and_then_def try_except_def command_def locate_def
  text_of_def driver_get_cookie_def driver_get_cookies_def answer_def logged_def

lemmas static_defs = static_browser_def static_locate_def static_text_def static_cookie_def
  presence_wait_def

lemmas login_defs = login_def type_into_def press_button_def wait_presence_def
  lookup_failure_def

lemmas get_defs = get_def truthy_def load_cookies_def open_file_def pickle_load_def

subsection \<open>Exception handling\<close>

lemma pair_of_fst: "fst p = a \<Longrightarrow> p = (a, snd p)"
  by (cases p) simp

lemma and_then_returns:
  "fst (m w) = Inr () \<Longrightarrow> and_then m f w = f () (snd (m w))"
  by (cases "m w") (simp add: and_then_def)

lemma try_except_pass:
  "handled e \<Longrightarrow> fst (try_except m handled (ret ()) w) \<noteq> Inl e"
  by (auto simp add: try_except_def ret_def split: prod.splits sum.splits)

lemma try_except_pass_ok:
  "\<forall>e. fst (m w) = Inl e \<longrightarrow> handled e \<Longrightarrow> fst (try_except m handled (ret ()) w) = Inr ()"
  by (auto simp add: try_except_def ret_def split: prod.splits sum.splits)

subsection \<open>The cookie-cache key\<close>

lemma hexdigit_inj:
  assumes "m < 16" and "n < 16" and "hexdigit m = hexdigit n"
  shows "m = n"
proof -
  have "distinct ''0123456789abcdef''" by simp
  moreover have "m < length ''0123456789abcdef''" and "n < length ''0123456789abcdef''"
    using assms(1,2) by simp_all
  ultimately show ?thesis
    using assms(3) unfolding hexdigit_def by (simp only: nth_eq_iff_index_eq)
qed

lemma unat_byte_less: "unat (b :: 8 word) < 256"
  using unsigned_less [of b, where 'a = nat] by simp

lemma hexbyte_inj:
  assumes "hexbyte a = hexbyte b"
  shows "a = b"
proof -
  have "unat a div 16 < 16" and "unat b div 16 < 16"
    using unat_byte_less [of a] unat_byte_less [of b] by simp_all
  moreover have "unat a mod 16 < 16" and "unat b mod 16 < 16" by simp_all
  moreover from assms
  have "hexdigit (unat a div 16) = hexdigit (unat b div 16)"
    and "hexdigit (unat a mod 16) = hexdigit (unat b mod 16)"
    by (simp_all add: hexbyte_def)
  ultimately have "unat a div 16 = unat b div 16" and "unat a mod 16 = unat b mod 16"
    by (blast intro: hexdigit_inj)+
  then have "unat a = unat b"
    by (metis div_mult_mod_eq)
  then show ?thesis by (simp add: word_unat_eq_iff)
qed

lemma hexdigest_inj: "hexdigest xs = hexdigest ys \<Longrightarrow> xs = ys"
proof (induction xs arbitrary: ys)
  case Nil
  then show ?case by (cases ys) (simp_all add: hexdigest_def hexbyte_def)
next
  case (Cons x xs)
  show ?case
  proof (cases ys)
    case Nil
    with Cons.prems show ?thesis by (simp add: hexdigest_def hexbyte_def)
  next
    case (Cons y ys')
    with Cons.prems have "hexbyte x @ hexdigest xs = hexbyte y @ hexdigest ys'"
      by (simp add: hexdigest_def)
    moreover have "length (hexbyte x) = length (hexbyte y)"
      by (simp add: hexbyte_def)
    ultimately have "hexbyte x = hexbyte y" and "hexdigest xs = hexdigest ys'"
      by simp_all
    with Cons.IH [of ys'] Cons show ?thesis by (simp add: hexbyte_inj)
  qed
qed

lemma encode_inj: "encode s = encode t \<Longrightarrow> s = t"
proof -
  have inj: "inj (\<lambda>c :: char. (of_nat (of_char c) :: 8 word))"
  proof (rule injI)
    fix c d :: char
    assume "(of_nat (of_char c) :: 8 word) = of_nat (of_char d)"
    then have "unat (of_nat (of_char c :: nat) :: 8 word) = unat (of_nat (of_char d :: nat) :: 8 word)"
      by simp
    moreover have "(of_char c :: nat) < 256" and "(of_char d :: nat) < 256"
      by simp_all
    ultimately have "(of_char c :: nat) = of_char d"
      by (simp add: unat_of_nat)
    then show "c = d" by simp
  qed
  assume "encode s = encode t"
  then show "s = t"
    unfolding encode_def using inj by simp
qed

lemma init_fields:
  "init digest br url username headless cookie_dir w = (Inr sso, w') \<Longrightarrow>
     sso_url sso = url \<and>
     sso_cookie_hash sso = hash digest (username @ ''@'' @ url) \<and>
     sso_cookie_file sso = cookie_path cookie_dir (hash digest (username @ ''@'' @ url))"
  by (auto simp: init_def cookie_key_def Let_def and_then_def ret_def
      split: prod.splits sum.splits)

text \<open>
  Claim C8. The cache key is the hash of the string \<open>username@url\<close> and of nothing
  else: two constructions with the same username, url and cookie directory store the same
  key and the same cookie file, whatever the browser, the headless flag and the state;
  two pairs that give the same string \<open>username@url\<close> give the same key; and two
  pairs with different strings and the same key are a collision of the digest function,
  which is a parameter here: different bytes with one digest.
\<close>

theorem cookie_key_of_username_at_url:
  "(init digest br url username headless cookie_dir w = (Inr sso, w1) \<and>
    init digest br' url username headless' cookie_dir w' = (Inr sso', w1') \<longrightarrow>
      sso_cookie_hash sso = hash digest (username @ ''@'' @ url) \<and>
      sso_cookie_hash sso' = sso_cookie_hash sso \<and>
      sso_cookie_file sso' = sso_cookie_file sso) \<and>
   (username @ ''@'' @ url = username' @ ''@'' @ url' \<longrightarrow>
      cookie_key digest username url = cookie_key digest username' url') \<and>
   (cookie_key digest username url = cookie_key digest username' url' \<and>
    username @ ''@'' @ url \<noteq> username' @ ''@'' @ url' \<longrightarrow>
      encode (username @ ''@'' @ url) \<noteq> encode (username' @ ''@'' @ url') \<and>
      digest (encode (username @ ''@'' @ url)) = digest (encode (username' @ ''@'' @ url')))"
proof (intro conjI impI)
  assume "init digest br url username headless cookie_dir w = (Inr sso, w1) \<and>
    init digest br' url username headless' cookie_dir w' = (Inr sso', w1')"
  then have a: "init digest br url username headless cookie_dir w = (Inr sso, w1)"
    and b: "init digest br' url username headless' cookie_dir w' = (Inr sso', w1')"
    by simp_all
  from init_fields [OF a] init_fields [OF b]
  show "sso_cookie_hash sso = hash digest (username @ ''@'' @ url)"
    and "sso_cookie_hash sso' = sso_cookie_hash sso"
    and "sso_cookie_file sso' = sso_cookie_file sso"
    by simp_all
next
  assume "username @ ''@'' @ url = username' @ ''@'' @ url'"
  then show "cookie_key digest username url = cookie_key digest username' url'"
    by (simp add: cookie_key_def)
next
  assume h: "cookie_key digest username url = cookie_key digest username' url' \<and>
    username @ ''@'' @ url \<noteq> username' @ ''@'' @ url'"
  then show "encode (username @ ''@'' @ url) \<noteq> encode (username' @ ''@'' @ url')"
    using encode_inj by blast
  from h show "digest (encode (username @ ''@'' @ url)) =
      digest (encode (username' @ ''@'' @ url'))"
    by (simp add: cookie_key_def hash_def hexdigest_inj)
qed

text \<open>
  With the length of the message for a digest: the users \<open>a@b\<close> at \<open>c\<close> and \<open>a\<close> at
  \<open>b@c\<close> share a key, the constructor stores the cookie file of the key, and the
  strings \<open>a@b\<close> and \<open>c@d\<close> collide.
\<close>

theorem cookie_key_of_username_at_url_witness:
  "cookie_key length_digest ''a@b'' ''c'' = cookie_key length_digest ''a'' ''b@c'' \<and>
   sso_cookie_file
     \<lparr>sso_url = ''https://d.awsapps.com/start'', sso_cookie_hash = ''21'',
      sso_cookie_file = Some ''c/21.pkl'', sso_poll_frequency = 50\<rparr> =
     cookie_path (Some ''c'') (hash length_digest ''alice@https://d.awsapps.com/start'') \<and>
   length_digest (encode ''a@b'') = length_digest (encode ''c@d'')"
proof -
  let ?url = "''https://d.awsapps.com/start''"
  let ?sso = "\<lparr>sso_url = ?url, sso_cookie_hash = ''21'',
      sso_cookie_file = Some ''c/21.pkl'', sso_poll_frequency = 50\<rparr>"
  let ?br = "static_browser [] [] []"
  have key: "cookie_key length_digest ''alice'' ?url = ''21''"
    by (simp add: cookie_key_def hash_def hexdigest_def hexbyte_def hexdigit_def
        length_digest_def encode_def)
  have i: "init length_digest ?br ?url ''alice'' True (Some ''c'') fresh =
      (Inr ?sso, fresh\<lparr>trace := [Launch True, ImplicitlyWait 5]\<rparr>)"
    and j: "init length_digest ?br ?url ''alice'' False (Some ''c'')
        (fresh\<lparr>trace := [Quit]\<rparr>) =
      (Inr ?sso, fresh\<lparr>trace := [Quit, Launch False, ImplicitlyWait 5]\<rparr>)"
    by (simp_all add: init_def key cookie_path_def prog_defs static_browser_def fresh_def)
  have "''a@b'' @ ''@'' @ ''c'' = ''a'' @ ''@'' @ ''b@c''" by simp
  with cookie_key_of_username_at_url [where digest = length_digest and username = "''a@b''" and url = "''c''"
      and username' = "''a''" and url' = "''b@c''"]
  have a: "cookie_key length_digest ''a@b'' ''c'' = cookie_key length_digest ''a'' ''b@c''"
    by blast
  from cookie_key_of_username_at_url [where digest = length_digest and br = ?br and url = ?url and username = "''alice''"
      and headless = True and cookie_dir = "Some ''c''" and w = fresh and sso = ?sso
      and br' = ?br and headless' = False and w' = "fresh\<lparr>trace := [Quit]\<rparr>"
      and sso' = ?sso] i j
  have "sso_cookie_hash ?sso = hash length_digest (''alice'' @ ''@'' @ ?url)"
    by blast
  then have b: "sso_cookie_file ?sso =
      cookie_path (Some ''c'') (hash length_digest ''alice@https://d.awsapps.com/start'')"
    by (simp add: cookie_path_def)
  have "cookie_key length_digest ''a'' ''b'' = cookie_key length_digest ''c'' ''d'' \<and>
      ''a'' @ ''@'' @ ''b'' \<noteq> ''c'' @ ''@'' @ ''d''"
    by (simp add: cookie_key_def hash_def length_digest_def encode_def)
  with cookie_key_of_username_at_url [where digest = length_digest and username = "''a''" and url = "''b''"
      and username' = "''c''" and url' = "''d''"]
  have "length_digest (encode (''a'' @ ''@'' @ ''b'')) =
      length_digest (encode (''c'' @ ''@'' @ ''d''))"
    by blast
  then have c: "length_digest (encode ''a@b'') = length_digest (encode ''c@d'')"
    by simp
  from a b c show ?thesis by blast
qed

subsection \<open>The cookie cache\<close>

lemma kept_cookies_iff:
  "kept_cookies ex cs acc = Inr r \<longleftrightarrow>
     (\<forall>c\<in>set cs. c ''name'' \<noteq> None) \<and>
     r = acc @ filter (\<lambda>c. c ''name'' \<notin> Some ` set ex) cs"
proof (induction cs arbitrary: acc)
  case Nil
  show ?case by auto
next
  case (Cons c cs)
  show ?case
  proof (cases "c ''name''")
    case None
    then show ?thesis by simp
  next
    case (Some n)
    with Cons.IH [of "if n \<notin> set ex then acc @ [c] else acc"]
    show ?thesis by (auto split: if_splits)
  qed
qed

lemma kept_cookies_authn:
  "kept_cookies [PStr ''x-amz-sso_authn''] session [] = Inr r \<longleftrightarrow>
     (\<forall>c\<in>set session. c ''name'' \<noteq> None) \<and>
     r = filter (\<lambda>c. c ''name'' \<noteq> Some (PStr ''x-amz-sso_authn'')) session"
  by (simp add: kept_cookies_iff)

lemma add_cookies_ok:
  "\<forall>tr c. on_command br tr (AddCookie c) = Inr () \<Longrightarrow>
     add_cookies br cs w =
       (Inr (), w\<lparr>trace := trace w @ map (\<lambda>c. AddCookie (without_expiry c)) cs\<rparr>)"
  by (induction cs arbitrary: w) (simp_all add: prog_defs)

lemma add_cookies_files: "files (snd (add_cookies br cs w)) = files w"
  by (induction cs arbitrary: w) (simp_all add: prog_defs split: sum.splits)

lemma add_cookies_exn: "fst (add_cookies br cs w) = Inl e \<Longrightarrow> \<exists>x. e = Selenium x"
  by (induction cs arbitrary: w) (auto simp: prog_defs split: sum.splits prod.splits)

lemma dump_cookies_files:
  "files (snd (dump_cookies sso br w)) p = files w p \<or>
   (\<exists>session. on_cookies br (trace w) GetCookies = Inr session \<and>
      sso_cookie_file sso = Some p \<and>
      (\<forall>c\<in>set session. c ''name'' \<noteq> None) \<and>
      files (snd (dump_cookies sso br w)) p =
        Some (CookiePickle (filter (\<lambda>c. c ''name'' \<noteq> Some (PStr ''x-amz-sso_authn'')) session)))"
proof (cases "on_cookies br (trace w) GetCookies")
  case (Inl e)
  then show ?thesis by (simp add: dump_cookies_def prog_defs)
next
  case (Inr session)
  show ?thesis
  proof (cases "kept_cookies [PStr ''x-amz-sso_authn''] session []")
    case (Inl e)
    with Inr show ?thesis by (simp add: dump_cookies_def prog_defs)
  next
    case kept: (Inr cookies)
    then have named: "\<forall>c\<in>set session. c ''name'' \<noteq> None"
      and cookies: "cookies = filter (\<lambda>c. c ''name'' \<noteq> Some (PStr ''x-amz-sso_authn'')) session"
      by (simp_all add: kept_cookies_authn)
    show ?thesis
    proof (cases "sso_cookie_file sso")
      case None
      with Inr kept show ?thesis
        by (simp add: dump_cookies_def prog_defs open_file_def)
    next
      case (Some path)
      with Inr kept named cookies show ?thesis
        by (simp add: dump_cookies_def prog_defs open_file_def pickle_dump_def)
    qed
  qed
qed

lemma dump_cookies_writes:
  assumes "sso_cookie_file sso = Some path"
    and "on_cookies br (trace w) GetCookies = Inr session"
    and "\<forall>c\<in>set session. c ''name'' \<noteq> None"
    and "path \<notin> unwritable w"
  shows "dump_cookies sso br w =
    (Inr (), w\<lparr>trace := trace w @ [GetCookies],
        files := (files w)(path \<mapsto>
          CookiePickle (filter (\<lambda>c. c ''name'' \<noteq> Some (PStr ''x-amz-sso_authn'')) session))\<rparr>)"
proof -
  have "kept_cookies [PStr ''x-amz-sso_authn''] session [] =
      Inr (filter (\<lambda>c. c ''name'' \<noteq> Some (PStr ''x-amz-sso_authn'')) session)"
    using assms(3) by (simp add: kept_cookies_authn)
  with assms show ?thesis
    by (simp add: dump_cookies_def prog_defs open_file_def pickle_dump_def)
qed

lemma command_files: "files (snd (command br a w)) = files w"
  by (simp add: prog_defs)

lemma close_files:
  "files (snd (close sso br w)) =
     files (snd ((if truthy (sso_cookie_file sso) then dump_cookies sso br else ret ()) w))"
  by (simp add: close_def and_then_def command_files split: prod.splits sum.splits)

lemma close_writes:
  assumes "sso_cookie_file sso = Some path" and "path \<noteq> []"
    and "on_cookies br (trace w) GetCookies = Inr session"
    and "\<forall>c\<in>set session. c ''name'' \<noteq> None"
    and "path \<notin> unwritable w"
  shows "files (snd (close sso br w)) path =
     Some (CookiePickle (filter (\<lambda>c. c ''name'' \<noteq> Some (PStr ''x-amz-sso_authn'')) session))"
proof -
  from assms(1,2) have "truthy (sso_cookie_file sso)" by (simp add: truthy_def)
  with dump_cookies_writes [OF assms(1) assms(3) assms(4) assms(5)]
  show ?thesis by (simp add: close_files)
qed

lemma load_cookies_missing:
  "sso_cookie_file sso = Some path \<Longrightarrow> files w path = None \<Longrightarrow>
     load_cookies sso br w = (Inr (), w)"
  by (simp add: load_cookies_def prog_defs open_file_def pickle_load_def)

lemma load_cookies_undecodable:
  "sso_cookie_file sso = Some path \<Longrightarrow> files w path = Some Undecodable \<Longrightarrow>
     load_cookies sso br w = (Inl UnpicklingError, w)"
  by (simp add: load_cookies_def prog_defs open_file_def pickle_load_def)

lemma load_cookies_pickle:
  "sso_cookie_file sso = Some path \<Longrightarrow> files w path = Some (CookiePickle cs) \<Longrightarrow>
     load_cookies sso br w = add_cookies br cs w"
  using add_cookies_exn [of br cs w]
  by (cases "add_cookies br cs w")
    (auto simp: load_cookies_def prog_defs open_file_def pickle_load_def split: sum.splits)

lemma get_after_navigate:
  "on_command br (trace w) (Navigate (sso_url sso)) = Inr () \<Longrightarrow> truthy (sso_cookie_file sso) \<Longrightarrow>
     get sso br w = load_cookies sso br (w\<lparr>trace := trace w @ [Navigate (sso_url sso)]\<rparr>)"
  by (simp add: get_def prog_defs)

text \<open>
  Claim C2. Whatever cookies the session holds when \<open>close\<close> runs, a file that \<open>close\<close>
  changes is the cookie file, and it then holds the session's cookies without those named
  \<open>x-amz-sso_authn\<close>. When the driver reports the session's cookies, each with a name, and
  the cookie file can be written, the file holds exactly the session's other cookies, in
  the session's order.
\<close>

theorem close_never_persists_authn:
  "(\<forall>p. files (snd (close sso br w)) p = files w p \<or>
      (\<exists>session. on_cookies br (trace w) GetCookies = Inr session \<and>
         sso_cookie_file sso = Some p \<and>
         files (snd (close sso br w)) p =
           Some (CookiePickle
             (filter (\<lambda>c. c ''name'' \<noteq> Some (PStr ''x-amz-sso_authn'')) session)))) \<and>
   (sso_cookie_file sso = Some path \<and> path \<noteq> [] \<and>
    on_cookies br (trace w) GetCookies = Inr session \<and>
    (\<forall>c\<in>set session. c ''name'' \<noteq> None) \<and> path \<notin> unwritable w \<longrightarrow>
      files (snd (close sso br w)) path =
        Some (CookiePickle
          (filter (\<lambda>c. c ''name'' \<noteq> Some (PStr ''x-amz-sso_authn'')) session)))"
proof (intro conjI allI impI)
  fix p
  show "files (snd (close sso br w)) p = files w p \<or>
      (\<exists>session. on_cookies br (trace w) GetCookies = Inr session \<and>
         sso_cookie_file sso = Some p \<and>
         files (snd (close sso br w)) p =
           Some (CookiePickle
             (filter (\<lambda>c. c ''name'' \<noteq> Some (PStr ''x-amz-sso_authn'')) session)))"
    using dump_cookies_files [of sso br w p]
    by (auto simp: close_files ret_def)
next
  assume h: "sso_cookie_file sso = Some path \<and> path \<noteq> [] \<and>
    on_cookies br (trace w) GetCookies = Inr session \<and>
    (\<forall>c\<in>set session. c ''name'' \<noteq> None) \<and> path \<notin> unwritable w"
  then have "truthy (sso_cookie_file sso)" by (simp add: truthy_def)
  with h dump_cookies_writes [of sso path br w session]
  show "files (snd (close sso br w)) path =
        Some (CookiePickle
          (filter (\<lambda>c. c ''name'' \<noteq> Some (PStr ''x-amz-sso_authn'')) session))"
    by (simp add: close_files)
qed

text \<open>
  A session of three cookies: the two that are not the authentication cookie are written.
\<close>

theorem close_never_persists_authn_witness:
  "files (snd (close demo_sso
      (static_browser [] [] [authn_cookie, device_cookie, lang_cookie]) fresh)) ''c/00.pkl'' =
     Some (CookiePickle [device_cookie, lang_cookie])"
proof -
  let ?br = "static_browser [] [] [authn_cookie, device_cookie, lang_cookie]"
  have h: "sso_cookie_file demo_sso = Some ''c/00.pkl'' \<and> ''c/00.pkl'' \<noteq> [] \<and>
    on_cookies ?br (trace fresh) GetCookies = Inr [authn_cookie, device_cookie, lang_cookie] \<and>
    (\<forall>c\<in>set [authn_cookie, device_cookie, lang_cookie]. c ''name'' \<noteq> None) \<and>
    ''c/00.pkl'' \<notin> unwritable fresh"
    by (simp add: demo_sso_def static_browser_def fresh_def authn_cookie_def
        device_cookie_def lang_cookie_def)
  have "files (snd (close demo_sso ?br fresh)) ''c/00.pkl'' =
      Some (CookiePickle (filter (\<lambda>c. c ''name'' \<noteq> Some (PStr ''x-amz-sso_authn''))
        [authn_cookie, device_cookie, lang_cookie]))"
    using close_never_persists_authn [of demo_sso ?br fresh "''c/00.pkl''"
        "[authn_cookie, device_cookie, lang_cookie]"] h
    by blast
  moreover have "authn_cookie ''name'' = Some (PStr ''x-amz-sso_authn'')"
    and "device_cookie ''name'' \<noteq> Some (PStr ''x-amz-sso_authn'')"
    and "lang_cookie ''name'' \<noteq> Some (PStr ''x-amz-sso_authn'')"
    by (simp_all add: authn_cookie_def device_cookie_def lang_cookie_def)
  ultimately show ?thesis by simp
qed

text \<open>
  Claim C3, as stated, fails: \<open>_dump_cookies\<close> writes each record as the driver gave it.
  A session cookie with an \<open>expiry\<close> field is in the file with that field.
\<close>

theorem persisted_cookie_keeps_expiry_counterexample:
  "files (snd (close demo_sso (static_browser [] [] [device_cookie]) fresh)) ''c/00.pkl'' =
     Some (CookiePickle [device_cookie]) \<and>
   device_cookie ''expiry'' = Some (PInt 1700003600)"
proof -
  let ?br = "static_browser [] [] [device_cookie]"
  have "dump_cookies demo_sso ?br fresh =
    (Inr (), fresh\<lparr>trace := trace fresh @ [GetCookies],
        files := (files fresh)(''c/00.pkl'' \<mapsto>
          CookiePickle (filter (\<lambda>c. c ''name'' \<noteq> Some (PStr ''x-amz-sso_authn''))
            [device_cookie]))\<rparr>)"
    by (rule dump_cookies_writes)
      (simp_all add: demo_sso_def static_browser_def fresh_def device_cookie_def)
  moreover have "device_cookie ''name'' \<noteq> Some (PStr ''x-amz-sso_authn'')"
    by (simp add: device_cookie_def)
  moreover have "truthy (sso_cookie_file demo_sso)"
    by (simp add: truthy_def demo_sso_def)
  ultimately have "files (snd (close demo_sso ?br fresh)) ''c/00.pkl'' =
     Some (CookiePickle [device_cookie])"
    by (simp add: close_files)
  then show ?thesis by (simp add: device_cookie_def)
qed

text \<open>
  Claim C3, amended. The cookie file holds every session cookie but the authentication
  cookie, each with all its fields, \<open>expiry\<close> included. The field is removed when the
  file is loaded: a later \<open>_load_cookies\<close> on a state with that file injects those cookies
  in order, each without \<open>expiry\<close> and with every other field as it was.
\<close>

theorem cookie_cache_round_trip:
  assumes "sso_cookie_file sso = Some path" and "path \<noteq> []"
    and "on_cookies br (trace w) GetCookies = Inr session"
    and "\<forall>c\<in>set session. c ''name'' \<noteq> None"
    and "path \<notin> unwritable w"
    and "files w' path = files (snd (close sso br w)) path"
    and "\<forall>tr c. on_command br' tr (AddCookie c) = Inr ()"
  shows "files (snd (close sso br w)) path =
           Some (CookiePickle
             (filter (\<lambda>c. c ''name'' \<noteq> Some (PStr ''x-amz-sso_authn'')) session)) \<and>
         load_cookies sso br' w' =
           (Inr (), w'\<lparr>trace := trace w' @
              map (\<lambda>c. AddCookie (without_expiry c))
                (filter (\<lambda>c. c ''name'' \<noteq> Some (PStr ''x-amz-sso_authn'')) session)\<rparr>) \<and>
         (\<forall>c k. without_expiry c ''expiry'' = None \<and>
            (k \<noteq> ''expiry'' \<longrightarrow> without_expiry c k = c k))"
proof -
  have written: "files (snd (close sso br w)) path =
           Some (CookiePickle
             (filter (\<lambda>c. c ''name'' \<noteq> Some (PStr ''x-amz-sso_authn'')) session))"
    using assms(1-5) by (rule close_writes)
  with assms(6) have "files w' path =
           Some (CookiePickle
             (filter (\<lambda>c. c ''name'' \<noteq> Some (PStr ''x-amz-sso_authn'')) session))"
    by simp
  with assms(1) assms(7) have "load_cookies sso br' w' =
           (Inr (), w'\<lparr>trace := trace w' @
              map (\<lambda>c. AddCookie (without_expiry c))
                (filter (\<lambda>c. c ''name'' \<noteq> Some (PStr ''x-amz-sso_authn'')) session)\<rparr>)"
    by (simp add: load_cookies_pickle add_cookies_ok)
  moreover have "\<forall>c k. without_expiry c ''expiry'' = None \<and>
            (k \<noteq> ''expiry'' \<longrightarrow> without_expiry c k = c k)"
    by (simp add: without_expiry_def)
  ultimately show ?thesis using written by blast
qed

text \<open>
  A session with the authentication cookie and one more: the other one is written with
  its \<open>expiry\<close> and injected without it.
\<close>

theorem cookie_cache_round_trip_witness:
  "files (snd (close demo_sso (static_browser [] [] [authn_cookie, device_cookie]) fresh))
      ''c/00.pkl'' = Some (CookiePickle [device_cookie]) \<and>
   load_cookies demo_sso (static_browser [] [] [])
      (snd (close demo_sso (static_browser [] [] [authn_cookie, device_cookie]) fresh)) =
     (Inr (), \<lparr>trace = [GetCookies, Quit,
                  AddCookie [''name'' \<mapsto> PStr ''device'', ''value'' \<mapsto> PStr ''d1'']],
        files = [''c/00.pkl'' \<mapsto> CookiePickle [device_cookie]],
        unwritable = {}\<rparr>)"
proof -
  let ?br = "static_browser [] [] [authn_cookie, device_cookie]"
  let ?w' = "snd (close demo_sso ?br fresh)"
  let ?keep = "filter (\<lambda>c. c ''name'' \<noteq> Some (PStr ''x-amz-sso_authn''))
      [authn_cookie, device_cookie]"
  have keep: "?keep = [device_cookie]"
    by (simp add: authn_cookie_def device_cookie_def)
  have "sso_cookie_file demo_sso = Some ''c/00.pkl''" and "''c/00.pkl'' \<noteq> []"
    and "on_cookies ?br (trace fresh) GetCookies = Inr [authn_cookie, device_cookie]"
    and "\<forall>c\<in>set [authn_cookie, device_cookie]. c ''name'' \<noteq> None"
    and "''c/00.pkl'' \<notin> unwritable fresh"
    and "files ?w' ''c/00.pkl'' = files (snd (close demo_sso ?br fresh)) ''c/00.pkl''"
    and "\<forall>tr c. on_command (static_browser [] [] []) tr (AddCookie c) = Inr ()"
    by (simp_all add: demo_sso_def static_browser_def fresh_def authn_cookie_def
        device_cookie_def)
  then have "files ?w' ''c/00.pkl'' = Some (CookiePickle ?keep) \<and>
      load_cookies demo_sso (static_browser [] [] []) ?w' =
        (Inr (), ?w'\<lparr>trace := trace ?w' @ map (\<lambda>c. AddCookie (without_expiry c)) ?keep\<rparr>)"
    using cookie_cache_round_trip [of demo_sso "''c/00.pkl''" ?br fresh "[authn_cookie, device_cookie]" ?w'
        "static_browser [] [] []"]
    by blast
  then have a: "files ?w' ''c/00.pkl'' = Some (CookiePickle [device_cookie])"
    and b: "load_cookies demo_sso (static_browser [] [] []) ?w' =
        (Inr (), ?w'\<lparr>trace := trace ?w' @ [AddCookie (without_expiry device_cookie)]\<rparr>)"
    by (simp_all only: keep list.map)
  have c: "without_expiry device_cookie =
      [''name'' \<mapsto> PStr ''device'', ''value'' \<mapsto> PStr ''d1'']"
    by (simp add: without_expiry_def device_cookie_def)
  have "dump_cookies demo_sso ?br fresh =
    (Inr (), fresh\<lparr>trace := trace fresh @ [GetCookies],
        files := (files fresh)(''c/00.pkl'' \<mapsto> CookiePickle ?keep)\<rparr>)"
    by (rule dump_cookies_writes)
      (simp_all add: demo_sso_def static_browser_def fresh_def authn_cookie_def
        device_cookie_def)
  then have d: "?w' = \<lparr>trace = [GetCookies, Quit],
      files = [''c/00.pkl'' \<mapsto> CookiePickle [device_cookie]], unwritable = {}\<rparr>"
    unfolding keep
    by (simp add: close_def and_then_def truthy_def demo_sso_def command_def logged_def
        fresh_def answer_def static_browser_def)
  from a b show ?thesis by (simp add: c d)
qed

text \<open>
  Claim C7. With a cookie file configured: when the file does not exist, \<open>_load_cookies\<close>
  returns normally and leaves the state as it is, so \<open>get\<close> only navigates and no cookie is
  injected. When the file unpickles to a list of cookies and the driver accepts them, with
  or without an \<open>expiry\<close> field, \<open>_load_cookies\<close> returns normally and has injected each
  cookie of the list in turn; an injected cookie has no \<open>expiry\<close>, and a cookie that had
  none is injected as it is.
\<close>

theorem load_cookies_tolerates_missing:
  assumes "sso_cookie_file sso = Some path" and "path \<noteq> []"
  shows "(files w path = None \<longrightarrow>
            load_cookies sso br w = (Inr (), w) \<and>
            (on_command br (trace w) (Navigate (sso_url sso)) = Inr () \<longrightarrow>
               get sso br w = (Inr (), w\<lparr>trace := trace w @ [Navigate (sso_url sso)]\<rparr>))) \<and>
         (files w path = Some (CookiePickle cs) \<and>
          (\<forall>tr c. on_command br tr (AddCookie c) = Inr ()) \<longrightarrow>
            load_cookies sso br w =
              (Inr (), w\<lparr>trace := trace w @ map (\<lambda>c. AddCookie (without_expiry c)) cs\<rparr>) \<and>
            (\<forall>c\<in>set cs. without_expiry c ''expiry'' = None \<and>
               (c ''expiry'' = None \<longrightarrow> without_expiry c = c)))"
proof -
  from assms have t: "truthy (sso_cookie_file sso)" by (simp add: truthy_def)
  have "files w path = None \<longrightarrow> load_cookies sso br w = (Inr (), w)"
    using assms(1) by (simp add: load_cookies_missing)
  moreover have "files w path = None \<longrightarrow>
      on_command br (trace w) (Navigate (sso_url sso)) = Inr () \<longrightarrow>
      get sso br w = (Inr (), w\<lparr>trace := trace w @ [Navigate (sso_url sso)]\<rparr>)"
    using assms(1) t
      load_cookies_missing [of sso path "w\<lparr>trace := trace w @ [Navigate (sso_url sso)]\<rparr>" br]
    by (simp add: get_after_navigate)
  moreover have "files w path = Some (CookiePickle cs) \<and>
          (\<forall>tr c. on_command br tr (AddCookie c) = Inr ()) \<longrightarrow>
            load_cookies sso br w =
              (Inr (), w\<lparr>trace := trace w @ map (\<lambda>c. AddCookie (without_expiry c)) cs\<rparr>)"
    using assms(1) by (simp add: load_cookies_pickle add_cookies_ok)
  moreover have "\<forall>c\<in>set cs. without_expiry c ''expiry'' = None \<and>
               (c ''expiry'' = None \<longrightarrow> without_expiry c = c)"
    by (simp add: without_expiry_def)
  ultimately show ?thesis by blast
qed

text \<open>
  No cache file: \<open>get\<close> only navigates. A cache of two cookies, one without \<open>expiry\<close>:
  both are injected, the second without its \<open>expiry\<close>.
\<close>

theorem load_cookies_tolerates_missing_witness:
  "get demo_sso (static_browser [] [] []) fresh =
     (Inr (), fresh\<lparr>trace := [Navigate ''https://d.awsapps.com/start'']\<rparr>) \<and>
   load_cookies demo_sso (static_browser [] [] [])
       (fresh\<lparr>files := [''c/00.pkl'' \<mapsto> CookiePickle [lang_cookie, device_cookie]]\<rparr>) =
     (Inr (), \<lparr>trace = [AddCookie lang_cookie,
                  AddCookie [''name'' \<mapsto> PStr ''device'', ''value'' \<mapsto> PStr ''d1'']],
        files = [''c/00.pkl'' \<mapsto> CookiePickle [lang_cookie, device_cookie]],
        unwritable = {}\<rparr>)"
proof -
  let ?br = "static_browser [] [] []"
  let ?w = "fresh\<lparr>files := [''c/00.pkl'' \<mapsto> CookiePickle [lang_cookie, device_cookie]]\<rparr>"
  have f: "sso_cookie_file demo_sso = Some ''c/00.pkl''" and n: "''c/00.pkl'' \<noteq> []"
    by (simp_all add: demo_sso_def)
  have "files fresh ''c/00.pkl'' = None"
    and "on_command ?br (trace fresh) (Navigate (sso_url demo_sso)) = Inr ()"
    by (simp_all add: fresh_def static_browser_def)
  with load_cookies_tolerates_missing [OF f n, of fresh ?br]
  have "get demo_sso ?br fresh =
      (Inr (), fresh\<lparr>trace := trace fresh @ [Navigate (sso_url demo_sso)]\<rparr>)"
    by blast
  then have a: "get demo_sso ?br fresh =
      (Inr (), fresh\<lparr>trace := [Navigate ''https://d.awsapps.com/start'']\<rparr>)"
    by (simp add: fresh_def demo_sso_def)
  have "files ?w ''c/00.pkl'' = Some (CookiePickle [lang_cookie, device_cookie]) \<and>
      (\<forall>tr c. on_command ?br tr (AddCookie c) = Inr ())"
    by (simp add: static_browser_def)
  with load_cookies_tolerates_missing [OF f n, of ?w ?br "[lang_cookie, device_cookie]"]
  have "load_cookies demo_sso ?br ?w =
      (Inr (), ?w\<lparr>trace := trace ?w @
         map (\<lambda>c. AddCookie (without_expiry c)) [lang_cookie, device_cookie]\<rparr>)"
    by blast
  moreover have "without_expiry lang_cookie = lang_cookie"
    by (simp add: without_expiry_def lang_cookie_def)
  moreover have "without_expiry device_cookie =
      [''name'' \<mapsto> PStr ''device'', ''value'' \<mapsto> PStr ''d1'']"
    by (simp add: without_expiry_def device_cookie_def)
  ultimately have "load_cookies demo_sso ?br ?w =
     (Inr (), \<lparr>trace = [AddCookie lang_cookie,
                  AddCookie [''name'' \<mapsto> PStr ''device'', ''value'' \<mapsto> PStr ''d1'']],
        files = [''c/00.pkl'' \<mapsto> CookiePickle [lang_cookie, device_cookie]],
        unwritable = {}\<rparr>)"
    by (simp add: fresh_def)
  with a show ?thesis by blast
qed

text \<open>
  Claim C10. With a cookie file configured, a file that exists and does not unpickle makes
  \<open>_load_cookies\<close> raise the unpickling error, with no cookie injected, and \<open>get\<close>
  raises it once the navigation is done. \<open>_load_cookies\<close> returns normally only when
  the file is missing, or when it unpickles and every cookie is injected.
\<close>

theorem load_cookies_propagates_undecodable:
  assumes "sso_cookie_file sso = Some path" and "path \<noteq> []"
  shows "(files w path = Some Undecodable \<longrightarrow>
            load_cookies sso br w = (Inl UnpicklingError, w) \<and>
            (on_command br (trace w) (Navigate (sso_url sso)) = Inr () \<longrightarrow>
               fst (get sso br w) = Inl UnpicklingError)) \<and>
         (fst (load_cookies sso br w) = Inr () \<longrightarrow>
            files w path = None \<or>
            (\<exists>cs. files w path = Some (CookiePickle cs) \<and> fst (add_cookies br cs w) = Inr ()))"
proof -
  from assms have t: "truthy (sso_cookie_file sso)" by (simp add: truthy_def)
  have "files w path = Some Undecodable \<longrightarrow> load_cookies sso br w = (Inl UnpicklingError, w)"
    using assms(1) by (simp add: load_cookies_undecodable)
  moreover have "files w path = Some Undecodable \<longrightarrow>
      on_command br (trace w) (Navigate (sso_url sso)) = Inr () \<longrightarrow>
      fst (get sso br w) = Inl UnpicklingError"
    using assms(1) t
      load_cookies_undecodable [of sso path "w\<lparr>trace := trace w @ [Navigate (sso_url sso)]\<rparr>" br]
    by (simp add: get_after_navigate)
  moreover have "fst (load_cookies sso br w) = Inr () \<longrightarrow>
            files w path = None \<or>
            (\<exists>cs. files w path = Some (CookiePickle cs) \<and> fst (add_cookies br cs w) = Inr ())"
  proof (cases "files w path")
    case None
    then show ?thesis by simp
  next
    case (Some b)
    show ?thesis
    proof (cases b)
      case (CookiePickle cs)
      with Some assms(1) show ?thesis by (simp add: load_cookies_pickle)
    next
      case Undecodable
      with Some assms(1) show ?thesis by (simp add: load_cookies_undecodable)
    qed
  qed
  ultimately show ?thesis by blast
qed

text \<open>
  A cache file that does not unpickle: \<open>get\<close> raises.
\<close>

theorem load_cookies_propagates_undecodable_witness:
  "fst (get demo_sso (static_browser [] [] [])
          (fresh\<lparr>files := [''c/00.pkl'' \<mapsto> Undecodable]\<rparr>)) = Inl UnpicklingError"
proof -
  let ?w = "fresh\<lparr>files := [''c/00.pkl'' \<mapsto> Undecodable]\<rparr>"
  have "sso_cookie_file demo_sso = Some ''c/00.pkl''" and "''c/00.pkl'' \<noteq> []"
    and "files ?w ''c/00.pkl'' = Some Undecodable"
    and "on_command (static_browser [] [] []) (trace ?w) (Navigate (sso_url demo_sso)) = Inr ()"
    by (simp_all add: demo_sso_def static_browser_def)
  then show ?thesis
    using load_cookies_propagates_undecodable [of demo_sso "''c/00.pkl''" ?w "static_browser [] [] []"] by blast
qed

subsection \<open>The login form\<close>

lemma wait_fails_lookup:
  assumes "\<forall>tr container_id e. on_locate br tr (presence_wait sso ById container_id) = Inl e \<longrightarrow>
       e = TimeoutException \<or> e = NoSuchElementException"
  shows "locate br (presence_wait sso ById container_id) w = (Inl e, w') \<Longrightarrow> lookup_failure e"
  using assms [rule_format, of "trace w" container_id]
  by (cases "on_locate br (trace w) (presence_wait sso ById container_id)")
    (auto simp: locate_def answer_def lookup_failure_def)

lemma find_fails_lookup:
  assumes "\<forall>tr el sel e. on_locate br tr (FindCss el sel) = Inl e \<longrightarrow>
       e = TimeoutException \<or> e = NoSuchElementException"
  shows "locate br (FindCss el sel) w = (Inl e, w') \<Longrightarrow> lookup_failure e"
  using assms [rule_format, of "trace w" el sel]
  by (cases "on_locate br (trace w) (FindCss el sel)")
    (auto simp: locate_def answer_def lookup_failure_def)

lemma type_into_returns:
  assumes "\<forall>tr container_id e. on_locate br tr (presence_wait sso ById container_id) = Inl e \<longrightarrow>
       e = TimeoutException \<or> e = NoSuchElementException"
    and "\<forall>tr el sel e. on_locate br tr (FindCss el sel) = Inl e \<longrightarrow>
       e = TimeoutException \<or> e = NoSuchElementException"
    and "\<forall>tr el. on_command br tr (Clear el) = Inr ()"
    and "\<forall>tr el keys. on_command br tr (SendKeys el keys) = Inr ()"
  shows "fst (type_into sso br container_id keys w) = Inr ()"
  unfolding type_into_def
proof (rule try_except_pass_ok, intro allI impI)
  fix e
  assume "fst (and_then (wait_presence sso br ById container_id) (\<lambda>wait.
        and_then (locate br (FindCss wait ''div.awsui-input-container > input'')) (\<lambda>el.
        and_then (command br (Clear el)) (\<lambda>_.
        command br (SendKeys el keys)))) w) = Inl e"
  then show "lookup_failure e"
    using assms(3,4)
    by (auto simp: and_then_def wait_presence_def command_def answer_def
        split: prod.splits sum.splits
        dest: wait_fails_lookup [OF assms(1)] find_fails_lookup [OF assms(2)])
qed

lemma press_button_returns:
  assumes "\<forall>tr container_id e. on_locate br tr (presence_wait sso ById container_id) = Inl e \<longrightarrow>
       e = TimeoutException \<or> e = NoSuchElementException"
    and "\<forall>tr el sel e. on_locate br tr (FindCss el sel) = Inl e \<longrightarrow>
       e = TimeoutException \<or> e = NoSuchElementException"
    and "\<forall>tr el. on_command br tr (Click el) = Inr ()"
  shows "fst (press_button sso br container_id w) = Inr ()"
  unfolding press_button_def
proof (rule try_except_pass_ok, intro allI impI)
  fix e
  assume "fst (and_then (wait_presence sso br ById container_id) (\<lambda>wait_button.
        and_then (locate br (FindCss wait_button ''button'')) (\<lambda>el.
        command br (Click el))) w) = Inl e"
  then show "lookup_failure e"
    using assms(3)
    by (auto simp: and_then_def wait_presence_def command_def answer_def
        split: prod.splits sum.splits
        dest: wait_fails_lookup [OF assms(1)] find_fails_lookup [OF assms(2)])
qed

lemma type_into_present:
  assumes "on_locate br (trace w) (presence_wait sso ById container_id) = Inr wait"
    and "on_locate br (trace w @ [presence_wait sso ById container_id])
           (FindCss wait ''div.awsui-input-container > input'') = Inr el"
    and "\<forall>tr el. on_command br tr (Clear el) = Inr ()"
    and "\<forall>tr el keys. on_command br tr (SendKeys el keys) = Inr ()"
  shows "type_into sso br container_id keys w =
     (Inr (), w\<lparr>trace := trace w @
        [presence_wait sso ById container_id,
         FindCss wait ''div.awsui-input-container > input'', Clear el, SendKeys el keys]\<rparr>)"
  using assms by (simp add: type_into_def wait_presence_def prog_defs)

lemma press_button_present:
  assumes "on_locate br (trace w) (presence_wait sso ById container_id) = Inr wait"
    and "on_locate br (trace w @ [presence_wait sso ById container_id])
           (FindCss wait ''button'') = Inr el"
    and "\<forall>tr el. on_command br tr (Click el) = Inr ()"
  shows "press_button sso br container_id w =
     (Inr (), w\<lparr>trace := trace w @
        [presence_wait sso ById container_id, FindCss wait ''button'', Click el]\<rparr>)"
  using assms by (simp add: press_button_def wait_presence_def prog_defs)

text \<open>
  Claim C4. Suppose a wait or a search of \<open>login\<close> fails only with a timeout or with
  no such element, and clearing, typing and clicking succeed. Then \<open>login\<close> returns
  normally; it runs its four steps in order, each from the state the step before left,
  whatever that step found; no step raises, from any state; and a step whose container
  and inner element are found clears and types, or clicks.
\<close>

theorem login_tolerates_missing_elements:
  assumes "\<forall>tr container_id e. on_locate br tr (presence_wait sso ById container_id) = Inl e \<longrightarrow>
       e = TimeoutException \<or> e = NoSuchElementException"
    and "\<forall>tr el sel e. on_locate br tr (FindCss el sel) = Inl e \<longrightarrow>
       e = TimeoutException \<or> e = NoSuchElementException"
    and "\<forall>tr el. on_command br tr (Clear el) = Inr ()"
    and "\<forall>tr el keys. on_command br tr (SendKeys el keys) = Inr ()"
    and "\<forall>tr el. on_command br tr (Click el) = Inr ()"
  shows "fst (login sso br username password w) = Inr () \<and>
    snd (login sso br username password w) =
      snd (press_button sso br ''password-submit-button''
        (snd (type_into sso br ''password-input'' password
          (snd (press_button sso br ''username-submit-button''
            (snd (type_into sso br ''username-input'' username w))))))) \<and>
    (\<forall>w' container_id keys. fst (type_into sso br container_id keys w') = Inr ()) \<and>
    (\<forall>w' container_id. fst (press_button sso br container_id w') = Inr ()) \<and>
    (\<forall>w' container_id keys wait el.
       on_locate br (trace w') (presence_wait sso ById container_id) = Inr wait \<and>
       on_locate br (trace w' @ [presence_wait sso ById container_id])
         (FindCss wait ''div.awsui-input-container > input'') = Inr el \<longrightarrow>
       type_into sso br container_id keys w' =
         (Inr (), w'\<lparr>trace := trace w' @
            [presence_wait sso ById container_id,
             FindCss wait ''div.awsui-input-container > input'', Clear el,
             SendKeys el keys]\<rparr>)) \<and>
    (\<forall>w' container_id wait el.
       on_locate br (trace w') (presence_wait sso ById container_id) = Inr wait \<and>
       on_locate br (trace w' @ [presence_wait sso ById container_id])
         (FindCss wait ''button'') = Inr el \<longrightarrow>
       press_button sso br container_id w' =
         (Inr (), w'\<lparr>trace := trace w' @
            [presence_wait sso ById container_id, FindCss wait ''button'', Click el]\<rparr>))"
proof -
  note t = type_into_returns [OF assms(1) assms(2) assms(3) assms(4)]
  note p = press_button_returns [OF assms(1) assms(2) assms(5)]
  have "login sso br username password w =
      press_button sso br ''password-submit-button''
        (snd (type_into sso br ''password-input'' password
          (snd (press_button sso br ''username-submit-button''
            (snd (type_into sso br ''username-input'' username w))))))"
    by (simp add: login_def and_then_returns t p)
  then have "fst (login sso br username password w) = Inr ()"
    and "snd (login sso br username password w) =
      snd (press_button sso br ''password-submit-button''
        (snd (type_into sso br ''password-input'' password
          (snd (press_button sso br ''username-submit-button''
            (snd (type_into sso br ''username-input'' username w)))))))"
    by (simp_all add: p)
  then show ?thesis
    using t p type_into_present [OF _ _ assms(3) assms(4)] press_button_present [OF _ _ assms(5)]
    by blast
qed

text \<open>
  The username field and the password button are missing: the username button is clicked
  and the password is typed.
\<close>

theorem login_tolerates_missing_elements_witness:
  "login demo_sso login_page ''alice'' ''s3cret'' fresh =
     (Inr (),
      fresh\<lparr>trace :=
        [presence_wait demo_sso ById ''username-input'',
         presence_wait demo_sso ById ''username-submit-button'', FindCss 2 ''button'', Click 3,
         presence_wait demo_sso ById ''password-input'',
         FindCss 4 ''div.awsui-input-container > input'', Clear 5, SendKeys 5 ''s3cret'',
         presence_wait demo_sso ById ''password-submit-button'']\<rparr>)"
proof -
  have "\<forall>tr container_id e.
      on_locate login_page tr (presence_wait demo_sso ById container_id) = Inl e \<longrightarrow>
      e = TimeoutException \<or> e = NoSuchElementException"
    and "\<forall>tr el sel e. on_locate login_page tr (FindCss el sel) = Inl e \<longrightarrow>
      e = TimeoutException \<or> e = NoSuchElementException"
    and "\<forall>tr el. on_command login_page tr (Clear el) = Inr ()"
    and "\<forall>tr el keys. on_command login_page tr (SendKeys el keys) = Inr ()"
    and "\<forall>tr el. on_command login_page tr (Click el) = Inr ()"
    by (auto simp add: login_page_def static_browser_def static_locate_def presence_wait_def
        split: option.splits)
  from login_tolerates_missing_elements [OF this, of "''alice''" "''s3cret''" fresh]
  have r: "fst (login demo_sso login_page ''alice'' ''s3cret'' fresh) = Inr ()"
    and s: "snd (login demo_sso login_page ''alice'' ''s3cret'' fresh) =
      snd (press_button demo_sso login_page ''password-submit-button''
        (snd (type_into demo_sso login_page ''password-input'' ''s3cret''
          (snd (press_button demo_sso login_page ''username-submit-button''
            (snd (type_into demo_sso login_page ''username-input'' ''alice'' fresh)))))))"
    by blast+
  have "snd (press_button demo_sso login_page ''password-submit-button''
        (snd (type_into demo_sso login_page ''password-input'' ''s3cret''
          (snd (press_button demo_sso login_page ''username-submit-button''
            (snd (type_into demo_sso login_page ''username-input'' ''alice'' fresh))))))) =
     fresh\<lparr>trace :=
        [presence_wait demo_sso ById ''username-input'',
         presence_wait demo_sso ById ''username-submit-button'', FindCss 2 ''button'', Click 3,
         presence_wait demo_sso ById ''password-input'',
         FindCss 4 ''div.awsui-input-container > input'', Clear 5, SendKeys 5 ''s3cret'',
         presence_wait demo_sso ById ''password-submit-button'']\<rparr>"
    by (simp add: type_into_def press_button_def wait_presence_def presence_wait_def prog_defs
        login_page_def static_browser_def static_locate_def lookup_failure_def fresh_def)
  with r s show ?thesis by (simp add: prod_eq_iff)
qed

subsection \<open>The token\<close>

text \<open>
  Claim C5. \<open>get_token\<close> waits for the dashboard marker with a timeout of one second.
  An exception of the wait, the timeout among them, is the result of \<open>get_token\<close>, and
  nothing else is done. When the marker is found, the portal opens again and the browser
  holds the authentication cookie with a value and an expiry, \<open>get_token\<close> returns that
  pair after these calls, in this order: the wait, the navigation to the portal URL, the
  read of the cookie and, when \<open>restore\<close> is set, the step back in history.
\<close>

theorem get_token_reads_authn_cookie:
  "presence_wait sso ByTagName ''portal-dashboard'' =
     Until None 1 (sso_poll_frequency sso)
       (PresenceOfElementLocated ByTagName ''portal-dashboard'') \<and>
   (on_locate br (trace w) (presence_wait sso ByTagName ''portal-dashboard'') = Inl e \<longrightarrow>
      get_token sso br restore w =
        (Inl (Selenium e),
         w\<lparr>trace := trace w @ [presence_wait sso ByTagName ''portal-dashboard'']\<rparr>)) \<and>
   (on_locate br (trace w) (presence_wait sso ByTagName ''portal-dashboard'') = Inr marker \<and>
    on_command br (trace w @ [presence_wait sso ByTagName ''portal-dashboard''])
       (Navigate (sso_url sso)) = Inr () \<and>
    on_cookie br
       (trace w @ [presence_wait sso ByTagName ''portal-dashboard'', Navigate (sso_url sso)])
       (GetCookie ''x-amz-sso_authn'') = Inr (Some c) \<and>
    (restore \<longrightarrow>
       on_command br
         (trace w @ [presence_wait sso ByTagName ''portal-dashboard'', Navigate (sso_url sso),
            GetCookie ''x-amz-sso_authn''])
         Back = Inr ()) \<and>
    c ''value'' = Some v \<and> c ''expiry'' = Some x \<longrightarrow>
      get_token sso br restore w =
        (Inr (v, x),
         w\<lparr>trace := trace w @
            [presence_wait sso ByTagName ''portal-dashboard'', Navigate (sso_url sso),
             GetCookie ''x-amz-sso_authn''] @
            (if restore then [Back] else [])\<rparr>))"
  by (simp add: get_token_def wait_presence_def subscript_def prog_defs)
    (simp add: presence_wait_def)

text \<open>
  Without the marker the wait times out; with it and \<open>restore\<close> set, the token is
  returned after the step back.
\<close>

theorem get_token_reads_authn_cookie_witness:
  "get_token demo_sso (static_browser [] [] []) True fresh =
     (Inl (Selenium TimeoutException),
      fresh\<lparr>trace := [presence_wait demo_sso ByTagName ''portal-dashboard'']\<rparr>) \<and>
   get_token demo_sso (static_browser [(''portal-dashboard'', 1)] [] [authn_cookie]) True fresh =
     (Inr (PStr ''eyJ0'', PInt 1700000000),
      fresh\<lparr>trace := [presence_wait demo_sso ByTagName ''portal-dashboard'',
         Navigate ''https://d.awsapps.com/start'', GetCookie ''x-amz-sso_authn'', Back]\<rparr>)"
proof -
  let ?dash = "presence_wait demo_sso ByTagName ''portal-dashboard''"
  let ?br = "static_browser [(''portal-dashboard'', 1)] [] [authn_cookie]"
  have "on_locate (static_browser [] [] []) (trace fresh) ?dash = Inl TimeoutException"
    by (simp add: static_browser_def static_locate_def presence_wait_def)
  with get_token_reads_authn_cookie [of demo_sso "static_browser [] [] []" fresh TimeoutException True]
  have "get_token demo_sso (static_browser [] [] []) True fresh =
      (Inl (Selenium TimeoutException), fresh\<lparr>trace := trace fresh @ [?dash]\<rparr>)"
    by blast
  then have a: "get_token demo_sso (static_browser [] [] []) True fresh =
     (Inl (Selenium TimeoutException), fresh\<lparr>trace := [?dash]\<rparr>)"
    by (simp add: fresh_def)
  have "on_locate ?br (trace fresh) ?dash = Inr 1"
    and "on_command ?br (trace fresh @ [?dash]) (Navigate (sso_url demo_sso)) = Inr ()"
    and "on_cookie ?br (trace fresh @ [?dash, Navigate (sso_url demo_sso)])
       (GetCookie ''x-amz-sso_authn'') = Inr (Some authn_cookie)"
    and "True \<longrightarrow> on_command ?br
         (trace fresh @ [?dash, Navigate (sso_url demo_sso), GetCookie ''x-amz-sso_authn''])
         Back = Inr ()"
    and "authn_cookie ''value'' = Some (PStr ''eyJ0'')"
    and "authn_cookie ''expiry'' = Some (PInt 1700000000)"
    by (simp_all add: static_browser_def static_locate_def static_cookie_def authn_cookie_def
        presence_wait_def)
  with get_token_reads_authn_cookie [of demo_sso ?br fresh _ True 1 authn_cookie "PStr ''eyJ0''" "PInt 1700000000"]
  have "get_token demo_sso ?br True fresh =
      (Inr (PStr ''eyJ0'', PInt 1700000000),
       fresh\<lparr>trace := trace fresh @
          [?dash, Navigate (sso_url demo_sso), GetCookie ''x-amz-sso_authn''] @
          (if True then [Back] else [])\<rparr>)"
    by blast
  then have "get_token demo_sso ?br True fresh =
     (Inr (PStr ''eyJ0'', PInt 1700000000),
      fresh\<lparr>trace := [?dash, Navigate ''https://d.awsapps.com/start'',
         GetCookie ''x-amz-sso_authn'', Back]\<rparr>)"
    by (simp add: fresh_def demo_sso_def)
  with a show ?thesis by blast
qed

subsection \<open>Alerts and MFA\<close>

text \<open>
  Claim C6, as stated, fails: the alert frame is found, there is no title in it, and
  \<open>check_alert\<close> returns normally.
\<close>

theorem check_alert_empty_frame_counterexample:
  "on_locate (static_browser [(''alertFrame'', 7)] [] []) (trace fresh)
     (presence_wait demo_sso ById ''alertFrame'') = Inr 7 \<and>
   fst (check_alert demo_sso (static_browser [(''alertFrame'', 7)] [] []) fresh) = Inr ()"
  by (simp add: check_alert_def wait_presence_def presence_wait_def prog_defs
      static_browser_def static_locate_def lookup_failure_def)

text \<open>
  Claim C6, amended. \<open>check_alert\<close> waits one second for the alert frame. When the wait
  times out it returns normally. When the frame is found with the title and the message
  in it, it raises \<open>AlertMessage\<close> with \<open>title: message\<close>. When the frame is found and
  the title or the message is not in it, it returns normally.
\<close>

theorem check_alert_outcomes:
  "presence_wait sso ById ''alertFrame'' =
     Until None 1 (sso_poll_frequency sso) (PresenceOfElementLocated ById ''alertFrame'') \<and>
   (on_locate br (trace w) (presence_wait sso ById ''alertFrame'') = Inl TimeoutException \<longrightarrow>
     check_alert sso br w =
       (Inr (), w\<lparr>trace := trace w @ [presence_wait sso ById ''alertFrame'']\<rparr>)) \<and>
   (on_locate br (trace w) (presence_wait sso ById ''alertFrame'') = Inr alert \<and>
    on_locate br (trace w @ [presence_wait sso ById ''alertFrame''])
      (FindCss alert ''div.a-alert-error > div.a-box-inner > h4'') = Inr h \<and>
    on_text br
      (trace w @
         [presence_wait sso ById ''alertFrame'',
          FindCss alert ''div.a-alert-error > div.a-box-inner > h4''])
      (Text h) = Inr error \<and>
    on_locate br
      (trace w @
         [presence_wait sso ById ''alertFrame'',
          FindCss alert ''div.a-alert-error > div.a-box-inner > h4'', Text h])
      (FindCss alert ''div.a-alert-error > div.a-box-inner > div.gwt-Label'') = Inr l \<and>
    on_text br
      (trace w @
         [presence_wait sso ById ''alertFrame'',
          FindCss alert ''div.a-alert-error > div.a-box-inner > h4'', Text h,
          FindCss alert ''div.a-alert-error > div.a-box-inner > div.gwt-Label''])
      (Text l) = Inr message \<longrightarrow>
     check_alert sso br w =
       (Inl (AlertMessage (error @ '': '' @ message)),
        w\<lparr>trace := trace w @
          [presence_wait sso ById ''alertFrame'',
           FindCss alert ''div.a-alert-error > div.a-box-inner > h4'', Text h,
           FindCss alert ''div.a-alert-error > div.a-box-inner > div.gwt-Label'', Text l]\<rparr>)) \<and>
   (on_locate br (trace w) (presence_wait sso ById ''alertFrame'') = Inr alert \<and>
    on_locate br (trace w @ [presence_wait sso ById ''alertFrame''])
      (FindCss alert ''div.a-alert-error > div.a-box-inner > h4'') =
      Inl NoSuchElementException \<longrightarrow>
     check_alert sso br w =
       (Inr (), w\<lparr>trace := trace w @
          [presence_wait sso ById ''alertFrame'',
           FindCss alert ''div.a-alert-error > div.a-box-inner > h4'']\<rparr>)) \<and>
   (on_locate br (trace w) (presence_wait sso ById ''alertFrame'') = Inr alert \<and>
    on_locate br (trace w @ [presence_wait sso ById ''alertFrame''])
      (FindCss alert ''div.a-alert-error > div.a-box-inner > h4'') = Inr h \<and>
    on_text br
      (trace w @
         [presence_wait sso ById ''alertFrame'',
          FindCss alert ''div.a-alert-error > div.a-box-inner > h4''])
      (Text h) = Inr error \<and>
    on_locate br
      (trace w @
         [presence_wait sso ById ''alertFrame'',
          FindCss alert ''div.a-alert-error > div.a-box-inner > h4'', Text h])
      (FindCss alert ''div.a-alert-error > div.a-box-inner > div.gwt-Label'') =
      Inl NoSuchElementException \<longrightarrow>
     check_alert sso br w =
       (Inr (), w\<lparr>trace := trace w @
          [presence_wait sso ById ''alertFrame'',
           FindCss alert ''div.a-alert-error > div.a-box-inner > h4'', Text h,
           FindCss alert ''div.a-alert-error > div.a-box-inner > div.gwt-Label'']\<rparr>))"
  by (simp add: check_alert_def wait_presence_def prog_defs lookup_failure_def)
    (simp add: presence_wait_def)

text \<open>
  No frame: a normal return. The banner of a wrong password: the alert with both texts.
\<close>

theorem check_alert_outcomes_witness:
  "check_alert demo_sso (static_browser [] [] []) fresh =
     (Inr (), fresh\<lparr>trace := [presence_wait demo_sso ById ''alertFrame'']\<rparr>) \<and>
   fst (check_alert demo_sso wrong_password fresh) =
     Inl (AlertMessage ''Incorrect username or password.: Try again.'')"
proof -
  let ?wait = "presence_wait demo_sso ById ''alertFrame''"
  let ?h4 = "FindCss 7 ''div.a-alert-error > div.a-box-inner > h4''"
  let ?label = "FindCss 7 ''div.a-alert-error > div.a-box-inner > div.gwt-Label''"
  have "on_locate (static_browser [] [] []) (trace fresh) ?wait = Inl TimeoutException"
    by (simp add: static_browser_def static_locate_def presence_wait_def)
  with check_alert_outcomes [of demo_sso "static_browser [] [] []" fresh]
  have "check_alert demo_sso (static_browser [] [] []) fresh =
      (Inr (), fresh\<lparr>trace := trace fresh @ [?wait]\<rparr>)"
    by blast
  then have a: "check_alert demo_sso (static_browser [] [] []) fresh =
      (Inr (), fresh\<lparr>trace := [?wait]\<rparr>)"
    by (simp add: fresh_def)
  have "on_locate wrong_password (trace fresh) ?wait = Inr 7"
    and "on_locate wrong_password (trace fresh @ [?wait]) ?h4 = Inr 8"
    and "on_text wrong_password (trace fresh @ [?wait, ?h4]) (Text 8) =
      Inr ''Incorrect username or password.''"
    and "on_locate wrong_password (trace fresh @ [?wait, ?h4, Text 8]) ?label = Inr 9"
    and "on_text wrong_password (trace fresh @ [?wait, ?h4, Text 8, ?label]) (Text 9) =
      Inr ''Try again.''"
    by (simp_all add: wrong_password_def static_browser_def static_locate_def static_text_def
        presence_wait_def)
  with check_alert_outcomes [of demo_sso wrong_password fresh 7 8 "''Incorrect username or password.''" 9
      "''Try again.''"]
  have "check_alert demo_sso wrong_password fresh =
       (Inl (AlertMessage (''Incorrect username or password.'' @ '': '' @ ''Try again.'')),
        fresh\<lparr>trace := trace fresh @ [?wait, ?h4, Text 8, ?label, Text 9]\<rparr>)"
    by blast
  then have "fst (check_alert demo_sso wrong_password fresh) =
     Inl (AlertMessage ''Incorrect username or password.: Try again.'')"
    by simp
  with a show ?thesis by blast
qed

text \<open>
  Claim C9. \<open>send_mfa\<close> does not read \<open>trusted_device\<close>: two calls that differ only in
  it are the same function of the state, so they make the same driver calls and end in
  the same result.
\<close>

theorem send_mfa_ignores_trusted_device:
  "send_mfa sso br mfa_form mfacode trusted = send_mfa sso br mfa_form mfacode trusted'"
  by (simp add: send_mfa_def)

subsection \<open>Refreshing the token\<close>

lemma check_alert_no_timeout: "fst (check_alert sso br w) \<noteq> Inl (Selenium TimeoutException)"
  unfolding check_alert_def by (rule try_except_pass) (simp add: lookup_failure_def)

lemma check_mfa_no_timeout: "fst (check_mfa sso br w) \<noteq> Inl (Selenium TimeoutException)"
  unfolding check_mfa_def by (rule try_except_pass) simp

lemma refresh_token_after_login:
  assumes "get sso br w = (Inr (), w0)" and "login sso br username password w0 = (Inr (), w1)"
  shows "refresh_token sso br username password restore w =
     (case get_token sso br restore w1 of
        (Inr token, w2) \<Rightarrow> (Inr (Some token), w2)
      | (Inl e, w2) \<Rightarrow>
          if e = Selenium TimeoutException then
            (case check_alert sso br w2 of
               (Inl e', w3) \<Rightarrow> (Inl e', w3)
             | (Inr _, w3) \<Rightarrow>
                 (case check_mfa sso br w3 of
                    (Inl e'', w4) \<Rightarrow> (Inl e'', w4)
                  | (Inr _, w4) \<Rightarrow> (Inr None, w4)))
          else (Inl e, w2))"
  using assms
  by (simp add: refresh_token_def and_then_def try_except_def ret_def
      split: prod.splits sum.splits)

lemma get_token_timeout:
  "on_locate br (trace w) (presence_wait sso ByTagName ''portal-dashboard'') = Inl e \<Longrightarrow>
     get_token sso br restore w =
       (Inl (Selenium e), logged (presence_wait sso ByTagName ''portal-dashboard'') w)"
  by (simp add: get_token_def wait_presence_def prog_defs)

lemma check_mfa_found:
  "on_locate br (trace w) (presence_wait sso ByTagName ''form'') = Inr form \<Longrightarrow>
     check_mfa sso br w =
       (Inl (MFACodeNeeded form), logged (presence_wait sso ByTagName ''form'') w)"
  by (simp add: check_mfa_def wait_presence_def prog_defs)

lemma check_mfa_timeout:
  "on_locate br (trace w) (presence_wait sso ByTagName ''form'') = Inl TimeoutException \<Longrightarrow>
     check_mfa sso br w = (Inr (), logged (presence_wait sso ByTagName ''form'') w)"
  by (simp add: check_mfa_def wait_presence_def prog_defs)

text \<open>
  Claim C1, as stated, fails: with no dashboard marker, no alert frame and no form,
  \<open>refresh_token\<close> raises nothing and returns \<open>None\<close>.
\<close>

theorem refresh_token_returns_none_counterexample:
  "fst (refresh_token demo_sso (static_browser [] [] []) ''alice'' ''s3cret'' False fresh) =
     Inr None"
  by (simp add: refresh_token_def get_defs login_defs get_token_def check_alert_def
      check_mfa_def prog_defs static_defs demo_sso_def fresh_def)

text \<open>
  Claim C1, amended. Suppose \<open>get\<close> and \<open>login\<close> return normally. When the dashboard
  marker is found, the portal opens again and the browser holds the authentication cookie
  with a value and an expiry, \<open>refresh_token\<close> returns that pair. When the wait for the
  marker times out: if \<open>check_alert\<close> raises \<open>AlertMessage\<close>, so does \<open>refresh_token\<close>;
  if \<open>check_alert\<close> returns normally and a form is found, \<open>refresh_token\<close> raises
  \<open>MFACodeNeeded\<close> with that form; if \<open>check_alert\<close> returns normally and the wait for a
  form times out, \<open>refresh_token\<close> returns \<open>None\<close>. In no case does \<open>refresh_token\<close>
  raise \<open>TimeoutException\<close>, and it never raises both an alert and an MFA prompt.
\<close>

theorem refresh_token_outcomes:
  assumes "get sso br w = (Inr (), w0)" and "login sso br username password w0 = (Inr (), w1)"
  shows
  "(on_locate br (trace w1) (presence_wait sso ByTagName ''portal-dashboard'') = Inr marker \<and>
    on_command br (trace w1 @ [presence_wait sso ByTagName ''portal-dashboard''])
       (Navigate (sso_url sso)) = Inr () \<and>
    on_cookie br
       (trace w1 @ [presence_wait sso ByTagName ''portal-dashboard'', Navigate (sso_url sso)])
       (GetCookie ''x-amz-sso_authn'') = Inr (Some c) \<and>
    (restore \<longrightarrow>
       on_command br
         (trace w1 @ [presence_wait sso ByTagName ''portal-dashboard'', Navigate (sso_url sso),
            GetCookie ''x-amz-sso_authn''])
         Back = Inr ()) \<and>
    c ''value'' = Some v \<and> c ''expiry'' = Some x \<longrightarrow>
      fst (refresh_token sso br username password restore w) = Inr (Some (v, x))) \<and>
   (on_locate br (trace w1) (presence_wait sso ByTagName ''portal-dashboard'') =
      Inl TimeoutException \<and>
    check_alert sso br (logged (presence_wait sso ByTagName ''portal-dashboard'') w1) =
      (Inl (AlertMessage text), w2) \<longrightarrow>
      fst (refresh_token sso br username password restore w) = Inl (AlertMessage text)) \<and>
   (on_locate br (trace w1) (presence_wait sso ByTagName ''portal-dashboard'') =
      Inl TimeoutException \<and>
    check_alert sso br (logged (presence_wait sso ByTagName ''portal-dashboard'') w1) =
      (Inr (), w2) \<and>
    on_locate br (trace w2) (presence_wait sso ByTagName ''form'') = Inr form \<longrightarrow>
      fst (refresh_token sso br username password restore w) = Inl (MFACodeNeeded form)) \<and>
   (on_locate br (trace w1) (presence_wait sso ByTagName ''portal-dashboard'') =
      Inl TimeoutException \<and>
    check_alert sso br (logged (presence_wait sso ByTagName ''portal-dashboard'') w1) =
      (Inr (), w2) \<and>
    on_locate br (trace w2) (presence_wait sso ByTagName ''form'') = Inl TimeoutException \<longrightarrow>
      fst (refresh_token sso br username password restore w) = Inr None) \<and>
   fst (refresh_token sso br username password restore w) \<noteq> Inl (Selenium TimeoutException) \<and>
   \<not> (fst (refresh_token sso br username password restore w) = Inl (AlertMessage text') \<and>
      fst (refresh_token sso br username password restore w) = Inl (MFACodeNeeded form'))"
proof -
  note unfold = refresh_token_after_login [OF assms, of restore]
  let ?dash = "presence_wait sso ByTagName ''portal-dashboard''"
  have token: "on_locate br (trace w1) ?dash = Inr marker \<and>
    on_command br (trace w1 @ [?dash]) (Navigate (sso_url sso)) = Inr () \<and>
    on_cookie br (trace w1 @ [?dash, Navigate (sso_url sso)])
       (GetCookie ''x-amz-sso_authn'') = Inr (Some c) \<and>
    (restore \<longrightarrow>
       on_command br
         (trace w1 @ [?dash, Navigate (sso_url sso), GetCookie ''x-amz-sso_authn''])
         Back = Inr ()) \<and>
    c ''value'' = Some v \<and> c ''expiry'' = Some x \<longrightarrow>
      fst (refresh_token sso br username password restore w) = Inr (Some (v, x))"
    unfolding unfold
    by (simp add: get_token_def wait_presence_def subscript_def prog_defs)
  have alert: "on_locate br (trace w1) ?dash = Inl TimeoutException \<and>
    check_alert sso br (logged ?dash w1) = (Inl (AlertMessage text), w2) \<longrightarrow>
      fst (refresh_token sso br username password restore w) = Inl (AlertMessage text)"
    unfolding unfold by (simp add: get_token_timeout)
  have mfa: "on_locate br (trace w1) ?dash = Inl TimeoutException \<and>
    check_alert sso br (logged ?dash w1) = (Inr (), w2) \<and>
    on_locate br (trace w2) (presence_wait sso ByTagName ''form'') = Inr form \<longrightarrow>
      fst (refresh_token sso br username password restore w) = Inl (MFACodeNeeded form)"
    unfolding unfold by (simp add: get_token_timeout check_mfa_found)
  have none: "on_locate br (trace w1) ?dash = Inl TimeoutException \<and>
    check_alert sso br (logged ?dash w1) = (Inr (), w2) \<and>
    on_locate br (trace w2) (presence_wait sso ByTagName ''form'') = Inl TimeoutException \<longrightarrow>
      fst (refresh_token sso br username password restore w) = Inr None"
    unfolding unfold by (simp add: get_token_timeout check_mfa_timeout)
  have "fst (refresh_token sso br username password restore w) \<noteq>
      Inl (Selenium TimeoutException)"
  proof (cases "get_token sso br restore w1")
    case (Pair r w2)
    show ?thesis
    proof (cases r)
      case (Inr token)
      with Pair show ?thesis unfolding unfold by simp
    next
      case (Inl e)
      show ?thesis
      proof (cases "e = Selenium TimeoutException")
        case False
        with Pair Inl show ?thesis unfolding unfold by simp
      next
        case True
        show ?thesis
        proof (cases "check_alert sso br w2")
          case a: (Pair r' w3)
          show ?thesis
          proof (cases r')
            case (Inl e')
            with a check_alert_no_timeout [of sso br w2] Pair \<open>r = Inl e\<close> True
            show ?thesis unfolding unfold by simp
          next
            case (Inr u)
            with a check_mfa_no_timeout [of sso br w3] Pair \<open>r = Inl e\<close> True
            show ?thesis unfolding unfold
              by (auto split: prod.splits sum.splits)
          qed
        qed
      qed
    qed
  qed
  moreover have "\<not> (fst (refresh_token sso br username password restore w) =
        Inl (AlertMessage text') \<and>
      fst (refresh_token sso br username password restore w) = Inl (MFACodeNeeded form'))"
    by auto
  ultimately show ?thesis using token alert mfa none by blast
qed

text \<open>
  The dashboard: the token. The banner of a wrong password: the alert. A form and no
  banner: the MFA prompt.
\<close>

theorem refresh_token_outcomes_witness:
  "fst (refresh_token demo_sso dashboard ''alice'' ''s3cret'' False fresh) =
     Inr (Some (PStr ''eyJ0'', PInt 1700000000)) \<and>
   fst (refresh_token demo_sso wrong_password ''alice'' ''s3cret'' False fresh) =
     Inl (AlertMessage ''Incorrect username or password.: Try again.'') \<and>
   fst (refresh_token demo_sso mfa_prompt ''alice'' ''s3cret'' False fresh) =
     Inl (MFACodeNeeded 4)"
proof -
  let ?dash = "presence_wait demo_sso ByTagName ''portal-dashboard''"
  have a: "fst (refresh_token demo_sso dashboard ''alice'' ''s3cret'' False fresh) =
     Inr (Some (PStr ''eyJ0'', PInt 1700000000))"
  proof -
    let ?w0 = "snd (get demo_sso dashboard fresh)"
    let ?w1 = "snd (login demo_sso dashboard ''alice'' ''s3cret'' ?w0)"
    have "fst (get demo_sso dashboard fresh) = Inr ()"
      by (simp add: get_defs prog_defs dashboard_def static_defs demo_sso_def fresh_def)
    then have g: "get demo_sso dashboard fresh = (Inr (), ?w0)"
      by (rule pair_of_fst)
    have "fst (login demo_sso dashboard ''alice'' ''s3cret'' ?w0) = Inr ()"
      by (simp add: login_defs prog_defs dashboard_def static_defs)
    then have l: "login demo_sso dashboard ''alice'' ''s3cret'' ?w0 = (Inr (), ?w1)"
      by (rule pair_of_fst)
    have "on_locate dashboard (trace ?w1) ?dash = Inr 1 \<and>
      on_command dashboard (trace ?w1 @ [?dash]) (Navigate (sso_url demo_sso)) = Inr () \<and>
      on_cookie dashboard (trace ?w1 @ [?dash, Navigate (sso_url demo_sso)])
        (GetCookie ''x-amz-sso_authn'') = Inr (Some authn_cookie) \<and>
      (False \<longrightarrow>
         on_command dashboard
           (trace ?w1 @ [?dash, Navigate (sso_url demo_sso), GetCookie ''x-amz-sso_authn''])
           Back = Inr ()) \<and>
      authn_cookie ''value'' = Some (PStr ''eyJ0'') \<and>
      authn_cookie ''expiry'' = Some (PInt 1700000000)"
      by (simp add: dashboard_def static_defs authn_cookie_def)
    with refresh_token_outcomes [OF g l, of 1 authn_cookie False "PStr ''eyJ0''" "PInt 1700000000"]
    show ?thesis by blast
  qed
  have b: "fst (refresh_token demo_sso wrong_password ''alice'' ''s3cret'' False fresh) =
     Inl (AlertMessage ''Incorrect username or password.: Try again.'')"
  proof -
    let ?w0 = "snd (get demo_sso wrong_password fresh)"
    let ?w1 = "snd (login demo_sso wrong_password ''alice'' ''s3cret'' ?w0)"
    let ?w2 = "snd (check_alert demo_sso wrong_password (logged ?dash ?w1))"
    have "fst (get demo_sso wrong_password fresh) = Inr ()"
      by (simp add: get_defs prog_defs wrong_password_def static_defs demo_sso_def fresh_def)
    then have g: "get demo_sso wrong_password fresh = (Inr (), ?w0)"
      by (rule pair_of_fst)
    have "fst (login demo_sso wrong_password ''alice'' ''s3cret'' ?w0) = Inr ()"
      by (simp add: login_defs prog_defs wrong_password_def static_defs)
    then have l: "login demo_sso wrong_password ''alice'' ''s3cret'' ?w0 = (Inr (), ?w1)"
      by (rule pair_of_fst)
    have "fst (check_alert demo_sso wrong_password (logged ?dash ?w1)) =
        Inl (AlertMessage ''Incorrect username or password.: Try again.'')"
      by (simp add: check_alert_def wait_presence_def lookup_failure_def prog_defs
          wrong_password_def static_defs)
    then have "check_alert demo_sso wrong_password (logged ?dash ?w1) =
        (Inl (AlertMessage ''Incorrect username or password.: Try again.''), ?w2)"
      by (rule pair_of_fst)
    moreover have "on_locate wrong_password (trace ?w1) ?dash = Inl TimeoutException"
      by (simp add: wrong_password_def static_defs)
    ultimately show ?thesis
      using refresh_token_outcomes [OF g l, of _ _ False _ _ "''Incorrect username or password.: Try again.''" ?w2]
      by blast
  qed
  have c: "fst (refresh_token demo_sso mfa_prompt ''alice'' ''s3cret'' False fresh) =
     Inl (MFACodeNeeded 4)"
  proof -
    let ?w0 = "snd (get demo_sso mfa_prompt fresh)"
    let ?w1 = "snd (login demo_sso mfa_prompt ''alice'' ''s3cret'' ?w0)"
    let ?w2 = "snd (check_alert demo_sso mfa_prompt (logged ?dash ?w1))"
    have "fst (get demo_sso mfa_prompt fresh) = Inr ()"
      by (simp add: get_defs prog_defs mfa_prompt_def static_defs demo_sso_def fresh_def)
    then have g: "get demo_sso mfa_prompt fresh = (Inr (), ?w0)"
      by (rule pair_of_fst)
    have "fst (login demo_sso mfa_prompt ''alice'' ''s3cret'' ?w0) = Inr ()"
      by (simp add: login_defs prog_defs mfa_prompt_def static_defs)
    then have l: "login demo_sso mfa_prompt ''alice'' ''s3cret'' ?w0 = (Inr (), ?w1)"
      by (rule pair_of_fst)
    have "fst (check_alert demo_sso mfa_prompt (logged ?dash ?w1)) = Inr ()"
      by (simp add: check_alert_def wait_presence_def lookup_failure_def prog_defs
          mfa_prompt_def static_defs)
    then have "check_alert demo_sso mfa_prompt (logged ?dash ?w1) = (Inr (), ?w2)"
      by (rule pair_of_fst)
    moreover have "on_locate mfa_prompt (trace ?w1) ?dash = Inl TimeoutException"
      and "on_locate mfa_prompt (trace ?w2) (presence_wait demo_sso ByTagName ''form'') = Inr 4"
      by (simp_all add: mfa_prompt_def static_defs)
    ultimately show ?thesis
      using refresh_token_outcomes [OF g l, of _ _ False _ _ _ ?w2 4]
      by blast
  qed
  from a b c show ?thesis by blast
qed

end
